theory Spec2Isabelle
  imports Main "HOL-Library.Word" "HOL-Library.Signed_Division"
begin

section \<open>Common conventions\<close>

text \<open>
  The C++ type \<open>int\<close> of the build described in the sources (gcc on x86-64) has 32 bits.
  Where a claim is about the stored bit pattern (the identifier sentinels) an \<open>int\<close> is a
  \<open>32 word\<close> read with \<open>sint\<close>; where it is about index arithmetic that cannot overflow
  it is an unbounded \<open>int\<close>, with the range lemma stated separately. A \<open>double\<close> is its
  64-bit pattern: the operations modelled here only store the constant \<open>0.0\<close> (all bits
  zero) and copy values.

  Every fatal exit of the sources is a value of \<open>error\<close>:
  \<^item> \<open>AssertionFailure\<close>: a failed \<open>TBOX_ASSERT\<close> (compiled in only in debug-assertion builds);
  \<^item> \<open>DimensionMismatch\<close>: a failed \<open>TBOX_ASSERT_OBJDIM_EQUALITYn\<close> or
    \<open>TBOX_ASSERT_DIM_OBJDIM_EQUALITYn\<close> (debug-assertion builds only);
  \<^item> \<open>UnsupportedDimension\<close>: the \<open>TBOX_ERROR\<close> of \<open>FaceConstantRefine::refine\<close>;
  \<^item> \<open>LengthError\<close>: \<open>std::vector::resize\<close> with a count above \<open>max_size()\<close>;
  \<^item> \<open>UndefinedBehaviour\<close>: a null dereference, an out-of-range access, \<open>back()\<close> of an
    empty vector or a division by zero that no check has stopped.
\<close>

type_synonym c_int = "32 word"
type_synonym double = "64 word"

datatype error =
    AssertionFailure
  | DimensionMismatch
  | UnsupportedDimension
  | LengthError
  | UndefinedBehaviour

text \<open>Sequencing of fallible steps: the first failure ends the call.\<close>

definition bind_err :: "error + 'a \<Rightarrow> ('a \<Rightarrow> error + 'b) \<Rightarrow> error + 'b" where
  "bind_err m f = (case m of Inl e \<Rightarrow> Inl e | Inr x \<Rightarrow> f x)"

text \<open>
  \<open>TBOX_ASSERT(c)\<close> and the dimension assertions exist only in debug-assertion builds
  (\<open>debug\<close>); a release build goes on to the code behind them. A null pointer that is
  dereferenced there, with no assertion left to stop it, is undefined behaviour.
\<close>

definition debug_assert :: "bool \<Rightarrow> bool \<Rightarrow> error \<Rightarrow> (error + 'a) \<Rightarrow> error + 'a" where
  "debug_assert debug c e k = (if debug \<and> \<not> c then Inl e else k)"

definition deref :: "'p option \<Rightarrow> ('p \<Rightarrow> error + 'a) \<Rightarrow> error + 'a" where
  "deref p k = (case p of None \<Rightarrow> Inl UndefinedBehaviour | Some x \<Rightarrow> k x)"

section \<open>hier::BlockId and hier::PeriodicId\<close>

text \<open>
  Modelled from the spec: \<open>tbox::MathUtilities<int>::getMax()\<close>, whose definition is not
  among the sources, is the maximum representable value of \<open>int\<close>.
\<close>

definition MathUtilities_int_getMax :: c_int where
  "MathUtilities_int_getMax = 0x7FFFFFFF"

record BlockId =
  block_value :: c_int

record PeriodicId =
  periodic_value :: c_int

text \<open>BlockId.cpp: \<open>s_invalid_id(tbox::MathUtilities<int>::getMax())\<close>, \<open>s_zero_id(0)\<close>.\<close>

definition BlockId_s_invalid_id :: BlockId where
  "BlockId_s_invalid_id = \<lparr>block_value = MathUtilities_int_getMax\<rparr>"

definition BlockId_s_zero_id :: BlockId where
  "BlockId_s_zero_id = \<lparr>block_value = 0\<rparr>"

text \<open>PeriodicId.cpp: \<open>s_invalid_id(-1)\<close>, \<open>s_zero_id(0)\<close>.\<close>

definition PeriodicId_s_invalid_id :: PeriodicId where
  "PeriodicId_s_invalid_id = \<lparr>periodic_value = - 1\<rparr>"

definition PeriodicId_s_zero_id :: PeriodicId where
  "PeriodicId_s_zero_id = \<lparr>periodic_value = 0\<rparr>"

text \<open>
  The two ways a 32-bit identifier value can be read, and the largest value of each
  reading.
\<close>

datatype int_reading = SignedInt | UnsignedInt

fun read_as :: "int_reading \<Rightarrow> c_int \<Rightarrow> int" where
  "read_as SignedInt w = sint w"
| "read_as UnsignedInt w = uint w"

fun max_representable :: "int_reading \<Rightarrow> int" where
  "max_representable SignedInt = 2 ^ 31 - 1"
| "max_representable UnsignedInt = 2 ^ 32 - 1"

section \<open>algs::TimeRefinementIntegratorConnectorWidthRequestor\<close>

text \<open>
  A \<open>hier::IntVector\<close> is the list of its components, one per axis. The hierarchy enters
  only through \<open>getDim()\<close> and \<open>getMaxNumberOfLevels()\<close>.
\<close>

type_synonym IntVector = "int list"

record PatchHierarchy =
  ph_dim :: nat
  ph_max_levels :: int

text \<open>\<open>hier::IntVector(dim, value)\<close>: every component is \<open>value\<close>.\<close>

definition IntVector_uniform :: "nat \<Rightarrow> int \<Rightarrow> IntVector" where
  "IntVector_uniform dim v = replicate dim v"

definition IntVector_getZero :: "nat \<Rightarrow> IntVector" where
  "IntVector_getZero dim = IntVector_uniform dim 0"

text \<open>
  \<open>std::vector::resize(n, v)\<close>: the first \<open>n\<close> elements are kept, and \<open>v\<close> fills only the
  positions the vector did not have.
\<close>

definition vector_resize :: "nat \<Rightarrow> 'a \<Rightarrow> 'a list \<Rightarrow> 'a list" where
  "vector_resize n v xs = take n xs @ replicate (n - length xs) v"

text \<open>
  The loop \<open>for (ln = 0; ln < max_levels; ++ln)\<close>, over the level numbers still to be
  visited. \<open>d_tag_buffer.back()\<close> of an empty vector is undefined.
\<close>

fun self_widths_loop ::
  "nat \<Rightarrow> int list \<Rightarrow> nat list \<Rightarrow> IntVector list \<Rightarrow> error + IntVector list" where
  "self_widths_loop dim d_tag_buffer [] self_connector_widths = Inr self_connector_widths"
| "self_widths_loop dim d_tag_buffer (ln # lns) self_connector_widths =
     (if length d_tag_buffer > ln
      then self_widths_loop dim d_tag_buffer lns
             (self_connector_widths @ [IntVector_uniform dim (d_tag_buffer ! ln)])
      else if d_tag_buffer = [] then Inl UndefinedBehaviour
      else self_widths_loop dim d_tag_buffer lns
             (self_connector_widths @ [IntVector_uniform dim (last d_tag_buffer)]))"

text \<open>
  \<open>computeRequiredConnectorWidths(self_connector_widths, fine_connector_widths,
  patch_hierarchy)\<close> of an object whose member is \<open>d_tag_buffer\<close>. Both vectors are
  reference parameters: the call receives their contents and returns the new ones, as the
  pair \<open>(self_connector_widths, fine_connector_widths)\<close>. \<open>max_levels - 1\<close> is converted
  to \<open>size_t\<close> by \<open>resize\<close>: a negative value becomes a count above \<open>max_size()\<close>.
\<close>

definition computeRequiredConnectorWidths ::
  "int list \<Rightarrow> IntVector list \<Rightarrow> IntVector list \<Rightarrow> PatchHierarchy
     \<Rightarrow> error + (IntVector list \<times> IntVector list)" where
  "computeRequiredConnectorWidths d_tag_buffer self_connector_widths fine_connector_widths
       patch_hierarchy =
     (let dim = ph_dim patch_hierarchy;
          max_levels = ph_max_levels patch_hierarchy
      in if max_levels - 1 < 0 then Inl LengthError
         else
           let fine' = vector_resize (nat (max_levels - 1)) (IntVector_getZero dim)
                         fine_connector_widths
           in bind_err (self_widths_loop dim d_tag_buffer [0 ..< nat max_levels] [])
                (\<lambda>self'. Inr (self', fine')))"

text \<open>\<open>setTagBuffer\<close> replaces the member.\<close>

definition setTagBuffer :: "int list \<Rightarrow> int list \<Rightarrow> int list" where
  "setTagBuffer d_tag_buffer tag_buffer = tag_buffer"

text \<open>The width the requestor asks for at level \<open>ln\<close>, as the spec words it.\<close>

definition tag_width_at :: "int list \<Rightarrow> nat \<Rightarrow> int" where
  "tag_width_at tag_buffer ln =
     (if ln < length tag_buffer then tag_buffer ! ln else last tag_buffer)"

section \<open>Boxes, patches and patch data\<close>

text \<open>
  A \<open>hier::Box\<close>: its lower and upper index vectors (one component per axis, so the
  dimension of the box is their length) and its local id.
\<close>

record Box =
  box_lower :: "int list"
  box_upper :: "int list"
  box_local_id :: int

definition Box_getDim :: "Box \<Rightarrow> nat" where
  "Box_getDim b = length (box_lower b)"

text \<open>
  Modelled from the spec: the constructor \<open>hier::Box(dim)\<close>, which is not among the
  sources, makes the empty box of that dimension, its local id the negative sentinel of a
  box that has none assigned.
\<close>

definition Box_empty :: "nat \<Rightarrow> Box" where
  "Box_empty dim =
     \<lparr>box_lower = replicate dim (2 ^ 31 - 1), box_upper = replicate dim (- (2 ^ 31)),
      box_local_id = - 1\<rparr>"

text \<open>
  A \<open>hier::BoxOverlap\<close> is a \<open>pdat::FaceOverlap\<close>, with one container of destination
  boxes per axis, or an overlap of another class.
\<close>

datatype BoxOverlap =
    FaceOverlap "Box list list"
  | OtherOverlap

text \<open>
  An array view addresses the values of one array of a patch data object by index vector;
  it is defined exactly on the indices of the array's box, so that an access outside the
  box is visible as \<open>None\<close>.
\<close>

type_synonym 'a ArrayView = "int list \<rightharpoonup> 'a"

text \<open>
  \<open>pdat::FaceData<T>\<close>: the depth, the ghost box, and for each face-normal axis and each
  depth component the array behind \<open>getView(axis, d)\<close> and \<open>getPointer(axis, d)\<close>.
\<close>

record 'a FaceData =
  fd_depth :: int
  fd_ghost_box :: Box
  fd_array :: "nat \<Rightarrow> nat \<Rightarrow> 'a ArrayView"

text \<open>
  The patch data of one component: \<open>pdat::OuternodeData<double>\<close>, as the list of its
  boundary arrays (one per axis and side, each the list of its values),
  \<open>pdat::FaceData<T>\<close>, or data of any other class.
\<close>

datatype 'a PatchData =
    OuternodeData "double list list"
  | FaceData "'a FaceData"
  | OtherPatchData

text \<open>
  A \<open>hier::Patch\<close> holds one (possibly null) pointer to patch data per component index; a
  \<open>hier::PatchLevel\<close> is the sequence of its patches.
\<close>

record 'a Patch =
  patch_dim :: nat
  patch_data :: "'a PatchData option list"

record 'a PatchLevel =
  level_dim :: nat
  level_patches :: "'a Patch list"

text \<open>
  Modelled from the spec: \<open>hier::Patch::getPatchData(id)\<close> is declared outside the
  sources. It returns the pointer stored for component \<open>id\<close>; an \<open>id\<close> outside the
  patch's components fails an assertion in a debug build and reads out of range otherwise.
\<close>

definition getPatchData :: "bool \<Rightarrow> 'a Patch \<Rightarrow> int \<Rightarrow> error + 'a PatchData option" where
  "getPatchData debug patch component =
     (if 0 \<le> component \<and> component < int (length (patch_data patch))
      then Inr (patch_data patch ! nat component)
      else Inl (if debug then AssertionFailure else UndefinedBehaviour))"

text \<open>The pointer casts: null unless the object has the class asked for.\<close>

fun cast_OuternodeData :: "'a PatchData option \<Rightarrow> double list list option" where
  "cast_OuternodeData (Some (OuternodeData arrays)) = Some arrays"
| "cast_OuternodeData _ = None"

fun cast_FaceData :: "'a PatchData option \<Rightarrow> 'a FaceData option" where
  "cast_FaceData (Some (FaceData fd)) = Some fd"
| "cast_FaceData _ = None"

fun cast_FaceOverlap :: "BoxOverlap \<Rightarrow> Box list list option" where
  "cast_FaceOverlap (FaceOverlap boxes) = Some boxes"
| "cast_FaceOverlap OtherOverlap = None"

section \<open>algs::OuternodeSumTransactionFactory\<close>

text \<open>
  The object \<open>std::make_shared<OuternodeSumTransaction>(...)\<close> builds, as the seven
  arguments its constructor receives. \<open>'r\<close> is what \<open>refine_data\<close> points to.
\<close>

record ('a, 'r) OuternodeSumTransaction =
  tr_dst_level :: "'a PatchLevel option"
  tr_src_level :: "'a PatchLevel option"
  tr_overlap :: "BoxOverlap option"
  tr_dst_node :: Box
  tr_src_node :: Box
  tr_refine_data :: "'r option"
  tr_item_id :: int

text \<open>\<open>TBOX_ASSERT_OBJDIM_EQUALITY4\<close>: the four objects have one dimension.\<close>

definition objdim_equality4 :: "nat \<Rightarrow> nat \<Rightarrow> nat \<Rightarrow> nat \<Rightarrow> bool" where
  "objdim_equality4 d1 d2 d3 d4 = (d1 = d2 \<and> d1 = d3 \<and> d1 = d4)"

text \<open>
  The assertion block both overloads open with. The dimension assertion dereferences the
  two levels; it stands behind the null assertions and is compiled only with them.
\<close>

definition allocate_assertions ::
  "bool \<Rightarrow> 'a PatchLevel option \<Rightarrow> 'a PatchLevel option \<Rightarrow> BoxOverlap option \<Rightarrow> Box \<Rightarrow> Box
     \<Rightarrow> 'r option \<Rightarrow> (error + 'b) \<Rightarrow> error + 'b" where
  "allocate_assertions debug dst_level src_level overlap dst_node src_node refine_data k =
     debug_assert debug (dst_level \<noteq> None) AssertionFailure
    (debug_assert debug (src_level \<noteq> None) AssertionFailure
    (debug_assert debug (overlap \<noteq> None) AssertionFailure
    (debug_assert debug (box_local_id dst_node \<ge> 0) AssertionFailure
    (debug_assert debug (box_local_id src_node \<ge> 0) AssertionFailure
    (debug_assert debug (refine_data \<noteq> None) AssertionFailure
    (if debug
     then deref dst_level (\<lambda>dl. deref src_level (\<lambda>sl.
            debug_assert debug
              (objdim_equality4 (level_dim dl) (level_dim sl)
                 (Box_getDim dst_node) (Box_getDim src_node))
              DimensionMismatch k))
     else k))))))"

text \<open>The nine-argument \<open>allocate\<close>; \<open>box\<close> and \<open>use_time_interpolation\<close> are unused.\<close>

definition allocate ::
  "bool \<Rightarrow> 'a PatchLevel option \<Rightarrow> 'a PatchLevel option \<Rightarrow> BoxOverlap option \<Rightarrow> Box \<Rightarrow> Box
     \<Rightarrow> 'r option \<Rightarrow> int \<Rightarrow> Box \<Rightarrow> bool \<Rightarrow> error + ('a, 'r) OuternodeSumTransaction" where
  "allocate debug dst_level src_level overlap dst_node src_node refine_data item_id box
       use_time_interpolation =
     allocate_assertions debug dst_level src_level overlap dst_node src_node refine_data
       (Inr \<lparr>tr_dst_level = dst_level, tr_src_level = src_level, tr_overlap = overlap,
             tr_dst_node = dst_node, tr_src_node = src_node, tr_refine_data = refine_data,
             tr_item_id = item_id\<rparr>)"

text \<open>
  The six-argument \<open>allocate\<close>: the same assertions, then the nine-argument overload with
  \<open>hier::Box(dst_level->getDim())\<close> and \<open>false\<close>.
\<close>

definition allocate6 ::
  "bool \<Rightarrow> 'a PatchLevel option \<Rightarrow> 'a PatchLevel option \<Rightarrow> BoxOverlap option \<Rightarrow> Box \<Rightarrow> Box
     \<Rightarrow> 'r option \<Rightarrow> int \<Rightarrow> error + ('a, 'r) OuternodeSumTransaction" where
  "allocate6 debug dst_level src_level overlap dst_node src_node refine_data item_id =
     allocate_assertions debug dst_level src_level overlap dst_node src_node refine_data
       (deref dst_level (\<lambda>dl.
          allocate debug dst_level src_level overlap dst_node src_node refine_data item_id
            (Box_empty (level_dim dl)) False))"

text \<open>
  A \<open>hier::ComponentSelector\<close> is its bit vector: \<open>getSize()\<close> is the length and
  \<open>isSet(n)\<close> the bit at \<open>n\<close>.
\<close>

type_synonym ComponentSelector = "bool list"

definition isSet :: "ComponentSelector \<Rightarrow> nat \<Rightarrow> bool" where
  "isSet preprocess_vector n = (n < length preprocess_vector \<and> preprocess_vector ! n)"

text \<open>
  Modelled from the spec: \<open>pdat::OuternodeData<double>::fillAll(t)\<close>, which is not among
  the sources, writes \<open>t\<close> to every value of every boundary array of the object.
\<close>

definition fillAll :: "double list list \<Rightarrow> double \<Rightarrow> double list list" where
  "fillAll arrays t = map (map (\<lambda>_. t)) arrays"

definition double_zero :: double where
  "double_zero = 0"

text \<open>
  The inner loop \<open>for (n = 0; n < ncomponents; ++n)\<close> on one patch, over the component
  indices still to be visited. \<open>fillAll\<close> writes through the pointer the patch holds, so
  the patch afterwards holds the filled object at \<open>n\<close>.
\<close>

fun components_loop ::
  "bool \<Rightarrow> ComponentSelector \<Rightarrow> nat list \<Rightarrow> 'a Patch \<Rightarrow> error + 'a Patch" where
  "components_loop debug preprocess_vector [] patch = Inr patch"
| "components_loop debug preprocess_vector (n # ns) patch =
     (if isSet preprocess_vector n
      then bind_err (getPatchData debug patch (int n)) (\<lambda>pd.
             let onode_data = cast_OuternodeData pd
             in debug_assert debug (onode_data \<noteq> None) AssertionFailure
                  (deref onode_data (\<lambda>arrays.
                     components_loop debug preprocess_vector ns
                       (patch\<lparr>patch_data :=
                          (patch_data patch)[n := Some (OuternodeData (fillAll arrays double_zero))]\<rparr>))))
      else components_loop debug preprocess_vector ns patch)"

text \<open>The outer loop over the patches of the level.\<close>

fun patches_loop ::
  "bool \<Rightarrow> ComponentSelector \<Rightarrow> 'a Patch list \<Rightarrow> error + 'a Patch list" where
  "patches_loop debug preprocess_vector [] = Inr []"
| "patches_loop debug preprocess_vector (patch # patches) =
     bind_err (components_loop debug preprocess_vector [0 ..< length preprocess_vector] patch)
       (\<lambda>patch'. bind_err (patches_loop debug preprocess_vector patches)
          (\<lambda>patches'. Inr (patch' # patches')))"

text \<open>
  \<open>preprocessScratchSpace(level, fill_time, preprocess_vector)\<close> returns nothing and
  changes the patch data of the level in place: the model returns the level afterwards.
\<close>

definition preprocessScratchSpace ::
  "bool \<Rightarrow> 'a PatchLevel option \<Rightarrow> double \<Rightarrow> ComponentSelector \<Rightarrow> error + 'a PatchLevel" where
  "preprocessScratchSpace debug level fill_time preprocess_vector =
     debug_assert debug (level \<noteq> None) AssertionFailure
       (deref level (\<lambda>l.
          bind_err (patches_loop debug preprocess_vector (level_patches l))
            (\<lambda>patches'. Inr (l\<lparr>level_patches := patches'\<rparr>))))"

text \<open>What a component of a patch holds after a zero fill: outernode data, every value \<open>0.0\<close>.\<close>

definition all_zero :: "'a PatchData option \<Rightarrow> bool" where
  "all_zero pd =
     (case cast_OuternodeData pd of
        None \<Rightarrow> False
      | Some arrays \<Rightarrow> list_all (list_all (\<lambda>v. v = double_zero)) arrays)"

section \<open>pdat::FaceConstantRefine\<close>

text \<open>
  The index arithmetic of the kernels, \<open>(k < 0) ? (k + 1) / r - 1 : k / r\<close>. The C++
  division of \<open>int\<close> truncates toward zero, which is \<open>sdiv\<close>; HOL's \<open>div\<close> rounds toward
  minus infinity. A zero divisor is undefined in C++ and is caught where the expression
  is used.
\<close>

definition coarsen_index :: "int \<Rightarrow> int \<Rightarrow> int" where
  "coarsen_index k r = (if k < 0 then (k + 1) sdiv r - 1 else k sdiv r)"

text \<open>Setting and growing one component of a box.\<close>

definition setLower :: "Box \<Rightarrow> nat \<Rightarrow> int \<Rightarrow> Box" where
  "setLower b i v = b\<lparr>box_lower := (box_lower b)[i := v]\<rparr>"

definition setUpper :: "Box \<Rightarrow> nat \<Rightarrow> int \<Rightarrow> Box" where
  "setUpper b i v = b\<lparr>box_upper := (box_upper b)[i := v]\<rparr>"

definition growUpper :: "Box \<Rightarrow> nat \<Rightarrow> int \<Rightarrow> Box" where
  "growUpper b i n = b\<lparr>box_upper := (box_upper b)[i := box_upper b ! i + n]\<rparr>"

text \<open>
  Modelled from the spec: \<open>hier::Box::coarsen(box, ratio)\<close> is not among the sources. It
  coarsens the lower and the upper index of the box, axis by axis, by the rule the spec
  gives for coarsening an index; a zero component of the ratio is a division by zero.
\<close>

definition Box_coarsen :: "Box \<Rightarrow> IntVector \<Rightarrow> error + Box" where
  "Box_coarsen b ratio =
     (if list_ex (\<lambda>r. r = 0) ratio then Inl UndefinedBehaviour
      else Inr (b\<lparr>box_lower := map2 coarsen_index (box_lower b) ratio,
                  box_upper := map2 coarsen_index (box_upper b) ratio\<rparr>))"

text \<open>
  The box \<open>fine_box\<close> of one destination face box: the face box's components rotated back
  from the face-normal-first order (\<open>(axis + i) % dim\<close>), then one layer less along the
  normal axis.
\<close>

definition fine_box_of :: "nat \<Rightarrow> nat \<Rightarrow> Box \<Rightarrow> Box" where
  "fine_box_of dim axis face_box =
     (let fine_box =
            foldl (\<lambda>fb i. setUpper (setLower fb ((axis + i) mod dim) (box_lower face_box ! i))
                              ((axis + i) mod dim) (box_upper face_box ! i))
              (Box_empty dim) [0 ..< dim]
      in setUpper fine_box axis (box_upper fine_box ! axis - 1))"

text \<open>
  \<open>fine_box_plus\<close> of the two kernels: \<open>fine_box\<close>, its components transposed for
  \<open>axis == 1\<close> (and \<open>axis == 2\<close> in three dimensions), grown by one along component 0.
\<close>

definition fine_box_plus2 :: "nat \<Rightarrow> Box \<Rightarrow> Box" where
  "fine_box_plus2 axis fine_box =
     (let fine_box_plus =
            (if axis = 1
             then setUpper (setUpper (setLower (setLower fine_box
                      0 (box_lower fine_box ! 1))
                      1 (box_lower fine_box ! 0))
                      0 (box_upper fine_box ! 1))
                      1 (box_upper fine_box ! 0)
             else fine_box)
      in growUpper fine_box_plus 0 1)"

definition fine_box_plus3 :: "nat \<Rightarrow> Box \<Rightarrow> Box" where
  "fine_box_plus3 axis fine_box =
     (let fine_box_plus =
            (if axis = 1
             then setUpper (setUpper (setUpper (setLower (setLower (setLower fine_box
                      0 (box_lower fine_box ! 1))
                      1 (box_lower fine_box ! 2))
                      2 (box_lower fine_box ! 0))
                      0 (box_upper fine_box ! 1))
                      1 (box_upper fine_box ! 2))
                      2 (box_upper fine_box ! 0)
             else if axis = 2
             then setUpper (setUpper (setUpper (setLower (setLower (setLower fine_box
                      0 (box_lower fine_box ! 2))
                      1 (box_lower fine_box ! 0))
                      2 (box_lower fine_box ! 1))
                      0 (box_upper fine_box ! 2))
                      1 (box_upper fine_box ! 0))
                      2 (box_upper fine_box ! 1)
             else fine_box)
      in growUpper fine_box_plus 0 1)"

text \<open>A loop whose body can fail: the iterations run in the order of the list.\<close>

fun for_each :: "('s \<Rightarrow> 'i \<Rightarrow> error + 's) \<Rightarrow> 'i list \<Rightarrow> 's \<Rightarrow> error + 's" where
  "for_each body [] s = Inr s"
| "for_each body (i # is) s = bind_err (body s i) (for_each body is)"

text \<open>
  Modelled from the spec: \<open>hier::parallel_for_all(box, body)\<close> is declared outside the
  sources. It runs the body once for every index of the box, as a data-parallel loop with
  no order promised between the indices. The model runs them as the sequential loop nest
  would, first component fastest; \<open>parallel_order\<close> says which other lists of iterations
  are executions of the same loop.
\<close>

definition box_indices2 :: "Box \<Rightarrow> (int \<times> int) list" where
  "box_indices2 b =
     concat (map (\<lambda>k. map (\<lambda>j. (j, k)) [box_lower b ! 0 .. box_upper b ! 0])
               [box_lower b ! 1 .. box_upper b ! 1])"

definition box_indices3 :: "Box \<Rightarrow> (int \<times> int \<times> int) list" where
  "box_indices3 b =
     concat (map (\<lambda>k. concat (map (\<lambda>j. map (\<lambda>i. (i, j, k)) [box_lower b ! 0 .. box_upper b ! 0])
                                  [box_lower b ! 1 .. box_upper b ! 1]))
               [box_lower b ! 2 .. box_upper b ! 2])"

definition parallel_for_all2 ::
  "Box \<Rightarrow> ('s \<Rightarrow> int \<Rightarrow> int \<Rightarrow> error + 's) \<Rightarrow> 's \<Rightarrow> error + 's" where
  "parallel_for_all2 box body s = for_each (\<lambda>s (j, k). body s j k) (box_indices2 box) s"

definition parallel_for_all3 ::
  "Box \<Rightarrow> ('s \<Rightarrow> int \<Rightarrow> int \<Rightarrow> int \<Rightarrow> error + 's) \<Rightarrow> 's \<Rightarrow> error + 's" where
  "parallel_for_all3 box body s = for_each (\<lambda>s (i, j, k). body s i j k) (box_indices3 box) s"


text \<open>
  The bodies of the two kernels. \<open>coarse_array\<close> is captured by value and only read; the
  state of the loop is \<open>fine_array\<close>. Reading or writing an index outside a view's box
  is undefined.
\<close>

definition refine_body2 ::
  "int \<Rightarrow> int \<Rightarrow> 'a ArrayView \<Rightarrow> 'a ArrayView \<Rightarrow> int \<Rightarrow> int \<Rightarrow> error + 'a ArrayView" where
  "refine_body2 r0 r1 coarse_array fine_array j k =
     (if r1 = 0 \<or> r0 = 0 then Inl UndefinedBehaviour
      else
        let ic1 = coarsen_index k r1;
            ic0 = coarsen_index j r0
        in (case coarse_array [ic0, ic1] of
              None \<Rightarrow> Inl UndefinedBehaviour
            | Some v \<Rightarrow>
                if fine_array [j, k] = None then Inl UndefinedBehaviour
                else Inr (fine_array([j, k] \<mapsto> v))))"

definition refine_body3 ::
  "int \<Rightarrow> int \<Rightarrow> int \<Rightarrow> 'a ArrayView \<Rightarrow> 'a ArrayView \<Rightarrow> int \<Rightarrow> int \<Rightarrow> int
     \<Rightarrow> error + 'a ArrayView" where
  "refine_body3 r0 r1 r2 coarse_array fine_array i j k =
     (if r0 = 0 \<or> r1 = 0 \<or> r2 = 0 then Inl UndefinedBehaviour
      else
        let ic0 = coarsen_index i r0;
            ic1 = coarsen_index j r1;
            ic2 = coarsen_index k r2
        in (case coarse_array [ic0, ic1, ic2] of
              None \<Rightarrow> Inl UndefinedBehaviour
            | Some v \<Rightarrow>
                if fine_array [i, j, k] = None then Inl UndefinedBehaviour
                else Inr (fine_array([i, j, k] \<mapsto> v))))"

text \<open>
  The Fortran routines of the build without RAJA (and of one dimension in every build)
  are not among the sources: they are parameters. Each receives the index vectors whose
  components the call passes one by one (\<open>ifirstc\<close>, \<open>ilastc\<close>, \<open>ifirstf\<close>, \<open>ilastf\<close>,
  \<open>cilo\<close>, \<open>cihi\<close>, \<open>filo\<close>, \<open>fihi\<close>), the ratio, the coarse array and the fine array, and
  returns the fine array it leaves; a routine has no way to report an error, so \<open>None\<close>
  stands for a call whose behaviour is undefined.
\<close>

type_synonym 'a fortran_kernel =
  "int list \<Rightarrow> int list \<Rightarrow> int list \<Rightarrow> int list \<Rightarrow> int list \<Rightarrow> int list \<Rightarrow> int list \<Rightarrow> int list
     \<Rightarrow> IntVector \<Rightarrow> 'a ArrayView \<Rightarrow> 'a ArrayView \<Rightarrow> 'a ArrayView option"

record 'a FortranFace =
  Call1dFortranFace :: "'a fortran_kernel"
  Call2dFortranFace_d0 :: "'a fortran_kernel"
  Call2dFortranFace_d1 :: "'a fortran_kernel"
  Call3dFortranFace_d0 :: "'a fortran_kernel"
  Call3dFortranFace_d1 :: "'a fortran_kernel"
  Call3dFortranFace_d2 :: "'a fortran_kernel"

text \<open>
  \<open>getView(axis, d)\<close> and \<open>getPointer(axis, d)\<close> address the array of one axis and depth
  component; a component the data does not have is out of range. \<open>setView\<close> is the array
  as the kernel left it.
\<close>

definition getView :: "'a FaceData \<Rightarrow> nat \<Rightarrow> nat \<Rightarrow> error + 'a ArrayView" where
  "getView data axis d =
     (if int d < fd_depth data then Inr (fd_array data axis d) else Inl UndefinedBehaviour)"

definition setView :: "'a FaceData \<Rightarrow> nat \<Rightarrow> nat \<Rightarrow> 'a ArrayView \<Rightarrow> 'a FaceData" where
  "setView data axis d v =
     data\<lparr>fd_array := (fd_array data)(axis := (fd_array data axis)(d := v))\<rparr>"

definition call_fortran ::
  "'a fortran_kernel \<Rightarrow> IntVector \<Rightarrow> 'a FaceData \<Rightarrow> Box \<Rightarrow> Box \<Rightarrow> nat \<Rightarrow> 'a FaceData \<Rightarrow> nat
     \<Rightarrow> error + 'a FaceData" where
  "call_fortran routine ratio cdata fine_box coarse_box axis fdata d =
     bind_err (getView cdata axis d) (\<lambda>cptr.
     bind_err (getView fdata axis d) (\<lambda>fptr.
     (case routine (box_lower coarse_box) (box_upper coarse_box)
             (box_lower fine_box) (box_upper fine_box)
             (box_lower (fd_ghost_box cdata)) (box_upper (fd_ghost_box cdata))
             (box_lower (fd_ghost_box fdata)) (box_upper (fd_ghost_box fdata))
             ratio cptr fptr of
        None \<Rightarrow> Inl UndefinedBehaviour
      | Some fptr' \<Rightarrow> Inr (setView fdata axis d fptr'))))"

text \<open>
  The body of the loop over the depth components \<open>d\<close>, for one destination box: the
  dispatch on the dimension, and within dimensions 2 and 3 on \<open>HAVE_RAJA\<close>.
\<close>

definition refine_depth_step ::
  "bool \<Rightarrow> 'a FortranFace \<Rightarrow> nat \<Rightarrow> IntVector \<Rightarrow> 'a FaceData \<Rightarrow> nat \<Rightarrow> Box \<Rightarrow> Box
     \<Rightarrow> 'a FaceData \<Rightarrow> nat \<Rightarrow> error + 'a FaceData" where
  "refine_depth_step have_raja ff dim ratio cdata axis fine_box coarse_box fdata d =
     (if dim = 1
      then call_fortran (Call1dFortranFace ff) ratio cdata fine_box coarse_box 0 fdata d
      else if dim = 2
      then (if have_raja
            then bind_err (getView fdata axis d) (\<lambda>fine_array.
                 bind_err (getView cdata axis d) (\<lambda>coarse_array.
                 let r0 = ratio ! 0;
                     r1 = ratio ! 1
                 in bind_err (parallel_for_all2 (fine_box_plus2 axis fine_box)
                                (refine_body2 r0 r1 coarse_array) fine_array)
                      (\<lambda>fine_array'. Inr (setView fdata axis d fine_array'))))
            else if axis = 0
            then call_fortran (Call2dFortranFace_d0 ff) ratio cdata fine_box coarse_box 0 fdata d
            else if axis = 1
            then call_fortran (Call2dFortranFace_d1 ff) ratio cdata fine_box coarse_box 1 fdata d
            else Inr fdata)
      else if dim = 3
      then (if have_raja
            then bind_err (getView fdata axis d) (\<lambda>fine_array.
                 bind_err (getView cdata axis d) (\<lambda>coarse_array.
                 let r0 = ratio ! 0;
                     r1 = ratio ! 1;
                     r2 = ratio ! 2
                 in bind_err (parallel_for_all3 (fine_box_plus3 axis fine_box)
                                (refine_body3 r0 r1 r2 coarse_array) fine_array)
                      (\<lambda>fine_array'. Inr (setView fdata axis d fine_array'))))
            else if axis = 0
            then call_fortran (Call3dFortranFace_d0 ff) ratio cdata fine_box coarse_box 0 fdata d
            else if axis = 1
            then call_fortran (Call3dFortranFace_d1 ff) ratio cdata fine_box coarse_box 1 fdata d
            else if axis = 2
            then call_fortran (Call3dFortranFace_d2 ff) ratio cdata fine_box coarse_box 2 fdata d
            else Inr fdata)
      else Inl UnsupportedDimension)"

text \<open>
  The dimension assertions of \<open>refine\<close>. A release build has none of them, and the code
  behind them reads components by the dimension it assumes: there the model ends the
  call as undefined.
\<close>

definition dim_assert :: "bool \<Rightarrow> bool \<Rightarrow> (error + 'a) \<Rightarrow> error + 'a" where
  "dim_assert debug c k =
     (if c then k else Inl (if debug then DimensionMismatch else UndefinedBehaviour))"

definition objdim_equality3 :: "nat \<Rightarrow> nat \<Rightarrow> nat \<Rightarrow> bool" where
  "objdim_equality3 d1 d2 d3 = (d1 = d2 \<and> d1 = d3)"

text \<open>The body of the loop over the destination boxes of one axis.\<close>

definition refine_box_step ::
  "bool \<Rightarrow> bool \<Rightarrow> 'a FortranFace \<Rightarrow> nat \<Rightarrow> IntVector \<Rightarrow> 'a FaceData \<Rightarrow> nat
     \<Rightarrow> 'a FaceData \<Rightarrow> Box \<Rightarrow> error + 'a FaceData" where
  "refine_box_step debug have_raja ff dim ratio cdata axis fdata face_box =
     dim_assert debug (Box_getDim face_box = dim)
       (let fine_box = fine_box_of dim axis face_box
        in bind_err (Box_coarsen fine_box ratio) (\<lambda>coarse_box.
             for_each (refine_depth_step have_raja ff dim ratio cdata axis fine_box coarse_box)
               [0 ..< nat (fd_depth fdata)] fdata))"

text \<open>
  The body of the loop over the axes. Modelled from the spec:
  \<open>FaceOverlap::getDestinationBoxContainer(axis)\<close> is declared outside the sources; it
  returns the destination boxes of that axis, which the overlap must have.
\<close>

definition refine_axis_step ::
  "bool \<Rightarrow> bool \<Rightarrow> 'a FortranFace \<Rightarrow> nat \<Rightarrow> IntVector \<Rightarrow> 'a FaceData \<Rightarrow> Box list list
     \<Rightarrow> 'a FaceData \<Rightarrow> nat \<Rightarrow> error + 'a FaceData" where
  "refine_axis_step debug have_raja ff dim ratio cdata t_overlap fdata axis =
     (if axis < length t_overlap
      then for_each (refine_box_step debug have_raja ff dim ratio cdata axis)
             (t_overlap ! axis) fdata
      else Inl (if debug then AssertionFailure else UndefinedBehaviour))"

text \<open>
  \<open>FaceConstantRefine<T>::refine(fine, coarse, dst_component, src_component, fine_overlap,
  ratio)\<close>. The fine patch is changed in place: the model returns it as the call leaves
  it. \<open>have_raja\<close> is the build's \<open>HAVE_RAJA\<close>.
\<close>

definition refine ::
  "bool \<Rightarrow> bool \<Rightarrow> 'a FortranFace \<Rightarrow> 'a Patch \<Rightarrow> 'a Patch \<Rightarrow> int \<Rightarrow> int \<Rightarrow> BoxOverlap
     \<Rightarrow> IntVector \<Rightarrow> error + 'a Patch" where
  "refine debug have_raja ff fine coarse dst_component src_component fine_overlap ratio =
     (let dim = patch_dim fine
      in bind_err (getPatchData debug coarse src_component) (\<lambda>cpd.
         bind_err (getPatchData debug fine dst_component) (\<lambda>fpd.
         let cdata = cast_FaceData cpd;
             fdata = cast_FaceData fpd;
             t_overlap = cast_FaceOverlap fine_overlap
         in debug_assert debug (t_overlap \<noteq> None) AssertionFailure
           (debug_assert debug (cdata \<noteq> None) AssertionFailure
           (debug_assert debug (fdata \<noteq> None) AssertionFailure
           (deref cdata (\<lambda>c. deref fdata (\<lambda>f.
            debug_assert debug (fd_depth c = fd_depth f) AssertionFailure
           (dim_assert debug (objdim_equality3 (patch_dim fine) (patch_dim coarse) (length ratio))
           (deref t_overlap (\<lambda>boxes.
            bind_err
              (for_each (refine_axis_step debug have_raja ff dim ratio c boxes) [0 ..< dim] f)
              (\<lambda>f'. Inr (fine\<lparr>patch_data :=
                             (patch_data fine)[nat dst_component := Some (FaceData f')]\<rparr>)))))))))))))"

text \<open>
  The condition under which the inner loop runs through on a patch: every selected
  component it visits exists on the patch and is outernode data of doubles.
\<close>

definition selected_are_outernode :: "ComponentSelector \<Rightarrow> nat list \<Rightarrow> 'a Patch \<Rightarrow> bool" where
  "selected_are_outernode pv ns patch =
     list_all (\<lambda>n. \<not> isSet pv n \<or>
                (n < length (patch_data patch)
                 \<and> cast_OuternodeData (patch_data patch ! n) \<noteq> None)) ns"

section \<open>The two paths of the constant refine operator\<close>









section \<open>Example data\<close>

text \<open>
  A level of two patches with three components each: component 0 is outernode data on
  both, component 1 is not selected below, component 2 is not allocated.
\<close>

definition example_level :: "unit PatchLevel" where
  "example_level =
     \<lparr>level_dim = 2,
      level_patches =
        [\<lparr>patch_dim = 2,
          patch_data = [Some (OuternodeData [[3, 5], [7]]), Some (OuternodeData [[9]]), None]\<rparr>,
         \<lparr>patch_dim = 2,
          patch_data = [Some (OuternodeData [[11]]), Some OtherPatchData, None]\<rparr>]\<rparr>"

definition example_level_filled :: "unit PatchLevel" where
  "example_level_filled =
     \<lparr>level_dim = 2,
      level_patches =
        [\<lparr>patch_dim = 2,
          patch_data = [Some (OuternodeData [[0, 0], [0]]), Some (OuternodeData [[9]]), None]\<rparr>,
         \<lparr>patch_dim = 2,
          patch_data = [Some (OuternodeData [[0]]), Some OtherPatchData, None]\<rparr>]\<rparr>"

text \<open>Two empty levels of dimensions 2 and 3, and a two-dimensional box with a given local id.\<close>

definition example_level2 :: "unit PatchLevel" where
  "example_level2 = \<lparr>level_dim = 2, level_patches = []\<rparr>"


definition example_box :: "int \<Rightarrow> Box" where
  "example_box n = \<lparr>box_lower = [0, 0], box_upper = [3, 3], box_local_id = n\<rparr>"

text \<open>
  A two-dimensional refinement by the ratio \<open>(2, 2)\<close>: four fine faces normal to axis 0,
  at indices \<open>-2 .. 1\<close>, over the two coarse faces at \<open>-1\<close> and \<open>0\<close>, which hold 7 and 9.
  The build has RAJA, so no Fortran routine is behind the two-dimensional path.
\<close>

definition no_fortran :: "int FortranFace" where
  "no_fortran =
     \<lparr>Call1dFortranFace = (\<lambda>_ _ _ _ _ _ _ _ _ _ _. None),
      Call2dFortranFace_d0 = (\<lambda>_ _ _ _ _ _ _ _ _ _ _. None),
      Call2dFortranFace_d1 = (\<lambda>_ _ _ _ _ _ _ _ _ _ _. None),
      Call3dFortranFace_d0 = (\<lambda>_ _ _ _ _ _ _ _ _ _ _. None),
      Call3dFortranFace_d1 = (\<lambda>_ _ _ _ _ _ _ _ _ _ _. None),
      Call3dFortranFace_d2 = (\<lambda>_ _ _ _ _ _ _ _ _ _ _. None)\<rparr>"

definition ex_coarse_data :: "int FaceData" where
  "ex_coarse_data =
     \<lparr>fd_depth = 1,
      fd_ghost_box = \<lparr>box_lower = [- 1, 0], box_upper = [0, 0], box_local_id = 0\<rparr>,
      fd_array = (\<lambda>axis d. if axis = 0 \<and> d = 0
                              then [[- 1, 0] \<mapsto> 7, [0, 0] \<mapsto> 9] else Map.empty)\<rparr>"

definition ex_fine_data :: "int FaceData" where
  "ex_fine_data =
     \<lparr>fd_depth = 1,
      fd_ghost_box = \<lparr>box_lower = [- 2, 0], box_upper = [1, 0], box_local_id = 0\<rparr>,
      fd_array = (\<lambda>axis d. if axis = 0 \<and> d = 0
                              then [[- 2, 0] \<mapsto> 0, [- 1, 0] \<mapsto> 0, [0, 0] \<mapsto> 0, [1, 0] \<mapsto> 0]
                              else Map.empty)\<rparr>"

definition ex_coarse :: "int Patch" where
  "ex_coarse = \<lparr>patch_dim = 2, patch_data = [Some (FaceData ex_coarse_data)]\<rparr>"

definition ex_fine :: "int Patch" where
  "ex_fine = \<lparr>patch_dim = 2, patch_data = [Some (FaceData ex_fine_data)]\<rparr>"

definition ex_face_box :: Box where
  "ex_face_box = \<lparr>box_lower = [- 2, 0], box_upper = [1, 0], box_local_id = 0\<rparr>"

definition ex_overlap :: BoxOverlap where
  "ex_overlap = FaceOverlap [[ex_face_box], []]"


definition ex4_data :: "int FaceData" where
  "ex4_data =
     \<lparr>fd_depth = 1, fd_ghost_box = Box_empty 4, fd_array = (\<lambda>axis d. Map.empty)\<rparr>"

definition ex4_patch :: "int Patch" where
  "ex4_patch = \<lparr>patch_dim = 4, patch_data = [Some (FaceData ex4_data)]\<rparr>"

definition ex4_box :: Box where
  "ex4_box = \<lparr>box_lower = [0, 0, 0, 0], box_upper = [1, 0, 0, 0], box_local_id = 0\<rparr>"


section \<open>Identifier sentinels\<close>

lemma sint_getMax: "sint MathUtilities_int_getMax = 2 ^ 31 - 1"
  by (simp add: MathUtilities_int_getMax_def)

text \<open>
  C8, as stated: each invalid sentinel is the maximum representable value of the underlying
  integer type. It fails for \<open>PeriodicId\<close>, whose sentinel is the \<open>int\<close> \<open>-1\<close>; and no
  common reading of the two stored values, signed or unsigned, makes both of them the
  maximum.
\<close>

theorem C8_invalid_id_not_max_counterexample:
  "\<not> (\<exists>t. read_as t (block_value BlockId_s_invalid_id) = max_representable t
          \<and> read_as t (periodic_value PeriodicId_s_invalid_id) = max_representable t)
   \<and> read_as SignedInt (periodic_value PeriodicId_s_invalid_id) \<noteq> max_representable SignedInt"
proof -
  have p: "sint (periodic_value PeriodicId_s_invalid_id) = - 1"
    by (simp add: PeriodicId_s_invalid_id_def)
  have b: "uint (block_value BlockId_s_invalid_id) = 2 ^ 31 - 1"
    by (simp add: BlockId_s_invalid_id_def MathUtilities_int_getMax_def)
  have "read_as t (block_value BlockId_s_invalid_id) = max_representable t
        \<Longrightarrow> read_as t (periodic_value PeriodicId_s_invalid_id) \<noteq> max_representable t" for t
    using p b by (cases t) simp_all
  then show ?thesis using p by auto
qed

text \<open>
  C8, amended: the invalid sentinel of \<open>BlockId\<close> is the maximum value of \<open>int\<close>,
  \<open>2^31 - 1\<close>; the invalid sentinel of \<open>PeriodicId\<close> is \<open>-1\<close>; the zero value of both
  types is \<open>0\<close>.
\<close>

theorem C8_sentinel_values:
  "sint (block_value BlockId_s_invalid_id) = max_representable SignedInt
   \<and> sint (periodic_value PeriodicId_s_invalid_id) = - 1
   \<and> sint (block_value BlockId_s_zero_id) = 0
   \<and> sint (periodic_value PeriodicId_s_zero_id) = 0"
  by (simp add: BlockId_s_invalid_id_def PeriodicId_s_invalid_id_def BlockId_s_zero_id_def
      PeriodicId_s_zero_id_def MathUtilities_int_getMax_def)

section \<open>Connector widths of the time refinement integrator\<close>

lemma self_widths_loop_eq:
  "d_tag_buffer \<noteq> [] \<Longrightarrow>
   self_widths_loop dim d_tag_buffer lns acc =
     Inr (acc @ map (\<lambda>ln. IntVector_uniform dim (tag_width_at d_tag_buffer ln)) lns)"
  by (induction lns arbitrary: acc) (simp_all add: tag_width_at_def)

lemma computeRequiredConnectorWidths_eq:
  assumes "1 \<le> ph_max_levels h" and "d_tag_buffer \<noteq> []"
  shows "computeRequiredConnectorWidths d_tag_buffer self_in fine_in h =
           Inr (map (\<lambda>ln. IntVector_uniform (ph_dim h) (tag_width_at d_tag_buffer ln))
                  [0 ..< nat (ph_max_levels h)],
                vector_resize (nat (ph_max_levels h - 1)) (IntVector_getZero (ph_dim h)) fine_in)"
  using assms
  by (simp add: computeRequiredConnectorWidths_def Let_def bind_err_def self_widths_loop_eq)

text \<open>
  C3: for a hierarchy with \<open>max_levels \<ge> 1\<close> levels and a non-empty tag buffer, the call
  returns, whatever the two vectors held before, and \<open>self_connector_widths\<close> then has
  exactly \<open>max_levels\<close> entries; entry \<open>ln\<close> has one component per axis, each equal to
  the tag buffer's entry \<open>ln\<close> when the buffer has one and to its last entry otherwise.
\<close>

theorem C3_self_connector_widths:
  assumes "1 \<le> ph_max_levels h" and "d_tag_buffer \<noteq> []"
  shows "\<exists>self' fine'.
           computeRequiredConnectorWidths d_tag_buffer self_in fine_in h = Inr (self', fine')
           \<and> length self' = nat (ph_max_levels h)
           \<and> (\<forall>ln < nat (ph_max_levels h).
                 length (self' ! ln) = ph_dim h
                 \<and> (\<forall>axis < ph_dim h.
                       self' ! ln ! axis =
                         (if ln < length d_tag_buffer then d_tag_buffer ! ln
                          else last d_tag_buffer)))"
  using computeRequiredConnectorWidths_eq [OF assms, of self_in fine_in]
  by (simp add: IntVector_uniform_def tag_width_at_def)

theorem C3_self_connector_widths_witness:
  "(1::int) \<le> ph_max_levels \<lparr>ph_dim = 2, ph_max_levels = 3\<rparr> \<and> [4, 2 :: int] \<noteq> []
   \<and> (\<exists>self' fine'.
           computeRequiredConnectorWidths [4, 2] [[9, 9]] [] \<lparr>ph_dim = 2, ph_max_levels = 3\<rparr>
             = Inr (self', fine')
           \<and> length self' = nat (ph_max_levels \<lparr>ph_dim = 2, ph_max_levels = 3\<rparr>)
           \<and> (\<forall>ln < nat (ph_max_levels \<lparr>ph_dim = 2, ph_max_levels = 3\<rparr>).
                 length (self' ! ln) = ph_dim \<lparr>ph_dim = 2, ph_max_levels = 3\<rparr>
                 \<and> (\<forall>axis < ph_dim \<lparr>ph_dim = 2, ph_max_levels = 3\<rparr>.
                       self' ! ln ! axis =
                         (if ln < length [4, 2 :: int] then [4, 2] ! ln
                          else last [4, 2]))))"
proof -
  have h1: "(1::int) \<le> ph_max_levels \<lparr>ph_dim = 2, ph_max_levels = 3\<rparr>" by simp
  have h2: "[4, 2 :: int] \<noteq> []" by simp
  show ?thesis
    by (rule conjI [OF h1 conjI [OF h2 C3_self_connector_widths [OF h1 h2]]])
qed

text \<open>The same call, evaluated: levels 0 and 1 take their own entries, level 2 the last one.\<close>

lemma computeRequiredConnectorWidths_example:
  "computeRequiredConnectorWidths [4, 2] [[9, 9]] [] \<lparr>ph_dim = 2, ph_max_levels = 3\<rparr>
     = Inr ([[4, 4], [2, 2], [2, 2]], [[0, 0], [0, 0]])"
  by (simp add: computeRequiredConnectorWidths_def Let_def bind_err_def upt_rec
      IntVector_uniform_def vector_resize_def IntVector_getZero_def eval_nat_numeral)

text \<open>
  What holds of \<open>fine_connector_widths\<close>: it comes back with \<open>max_levels - 1\<close> entries,
  the tag buffer has no part in it, and it is all zero vectors when the vector is passed
  in empty.
\<close>

lemma fine_connector_widths_length:
  assumes "1 \<le> ph_max_levels h" and "d_tag_buffer \<noteq> []"
  shows "\<exists>self' fine'.
           computeRequiredConnectorWidths d_tag_buffer self_in fine_in h = Inr (self', fine')
           \<and> length fine' = nat (ph_max_levels h - 1)"
  using computeRequiredConnectorWidths_eq [OF assms, of self_in fine_in]
  by (simp add: vector_resize_def)

lemma fine_connector_widths_tag_independent:
  assumes "t1 \<noteq> []" and "t2 \<noteq> []"
  shows "map_sum id snd (computeRequiredConnectorWidths t1 s1 fine_in h)
       = map_sum id snd (computeRequiredConnectorWidths t2 s2 fine_in h)"
proof (cases "1 \<le> ph_max_levels h")
  case True
  then show ?thesis using assms by (simp add: computeRequiredConnectorWidths_eq)
next
  case False
  then show ?thesis by (simp add: computeRequiredConnectorWidths_def)
qed

lemma fine_connector_widths_from_empty:
  assumes "1 \<le> ph_max_levels h" and "d_tag_buffer \<noteq> []"
  shows "\<exists>self'. computeRequiredConnectorWidths d_tag_buffer self_in [] h =
           Inr (self', replicate (nat (ph_max_levels h - 1)) (IntVector_getZero (ph_dim h)))"
  using computeRequiredConnectorWidths_eq [OF assms, of self_in "[]"]
  by (simp add: vector_resize_def)

text \<open>
  C9 at an input where it fails: \<open>resize\<close> keeps the entries \<open>fine_connector_widths\<close>
  already has, so a vector that arrives holding the width \<open>(5, 5)\<close> leaves with it, where
  the claim has the zero vector. (\<open>self_connector_widths\<close> is cleared first and does not
  depend on what it held.)
\<close>

theorem C9_stale_fine_widths_kept:
  "computeRequiredConnectorWidths [1] [] [[5, 5]] \<lparr>ph_dim = 2, ph_max_levels = 2\<rparr>
     = Inr ([[1, 1], [1, 1]], [[5, 5]])"
  by (simp add: computeRequiredConnectorWidths_def Let_def bind_err_def upt_rec
      IntVector_uniform_def vector_resize_def IntVector_getZero_def eval_nat_numeral)

section \<open>Zero fill of the scratch space\<close>

lemma cast_OuternodeData_Some:
  "cast_OuternodeData pd = Some arrays \<longleftrightarrow> pd = Some (OuternodeData arrays)"
  by (cases pd rule: cast_OuternodeData.cases) auto

lemma fillAll_idem: "fillAll (fillAll arrays t) t = fillAll arrays t"
  by (simp add: fillAll_def)

lemma all_zero_fillAll: "all_zero (Some (OuternodeData (fillAll arrays double_zero)))"
  by (simp add: all_zero_def fillAll_def list_all_iff)

lemma components_loop_step:
  assumes "isSet pv n" and "n < length (patch_data patch)"
    and "patch_data patch ! n = Some (OuternodeData arrays)"
  shows "components_loop debug pv (n # ns) patch =
         components_loop debug pv ns
           (patch\<lparr>patch_data := (patch_data patch)[n := Some (OuternodeData (fillAll arrays double_zero))]\<rparr>)"
  using assms
  by (simp add: getPatchData_def bind_err_def debug_assert_def deref_def Let_def)

lemma components_loop_step_fail:
  assumes "isSet pv n"
    and "\<not> (n < length (patch_data patch) \<and> cast_OuternodeData (patch_data patch ! n) \<noteq> None)"
  shows "components_loop debug pv (n # ns) patch =
         Inl (if debug then AssertionFailure else UndefinedBehaviour)"
  using assms
  by (auto simp add: getPatchData_def bind_err_def debug_assert_def deref_def Let_def)

lemma components_loop_result:
  "components_loop debug pv ns patch = Inr patch' \<Longrightarrow>
     patch_dim patch' = patch_dim patch
     \<and> length (patch_data patch') = length (patch_data patch)
     \<and> (\<forall>m < length (patch_data patch).
           if m \<in> set ns \<and> isSet pv m
           then (\<exists>arrays. patch_data patch ! m = Some (OuternodeData arrays)
                   \<and> patch_data patch' ! m = Some (OuternodeData (fillAll arrays double_zero)))
           else patch_data patch' ! m = patch_data patch ! m)
     \<and> (\<forall>n \<in> set ns. isSet pv n \<longrightarrow> n < length (patch_data patch))"
proof (induction ns arbitrary: patch)
  case Nil
  then show ?case by simp
next
  case (Cons n ns)
  show ?case
  proof (cases "isSet pv n")
    case False
    with Cons.prems have "components_loop debug pv ns patch = Inr patch'" by simp
    from Cons.IH [OF this] False show ?thesis by auto
  next
    case True
    show ?thesis
    proof (cases "n < length (patch_data patch) \<and> cast_OuternodeData (patch_data patch ! n) \<noteq> None")
      case bad: False
      from components_loop_step_fail [OF True bad, of debug ns] Cons.prems show ?thesis
        by simp
    next
      case ok: True
      then obtain arrays where arr: "patch_data patch ! n = Some (OuternodeData arrays)"
        by (auto simp: cast_OuternodeData_Some)
      let ?p1 = "patch\<lparr>patch_data := (patch_data patch)[n := Some (OuternodeData (fillAll arrays double_zero))]\<rparr>"
      from Cons.prems True ok arr have "components_loop debug pv ns ?p1 = Inr patch'"
        by (simp only: components_loop_step)
      note IH = Cons.IH [OF this]
      have d: "patch_dim patch' = patch_dim patch"
        and l: "length (patch_data patch') = length (patch_data patch)"
        and r: "\<forall>k \<in> set ns. isSet pv k \<longrightarrow> k < length (patch_data patch)"
        using IH by simp_all
      have ih: "if m \<in> set ns \<and> isSet pv m
            then (\<exists>a. patch_data ?p1 ! m = Some (OuternodeData a)
                   \<and> patch_data patch' ! m = Some (OuternodeData (fillAll a double_zero)))
            else patch_data patch' ! m = patch_data ?p1 ! m"
        if "m < length (patch_data patch)" for m
      proof -
        from that have "m < length (patch_data ?p1)" by simp
        with IH show ?thesis by blast
      qed
      have "(if m \<in> set (n # ns) \<and> isSet pv m
           then (\<exists>a. patch_data patch ! m = Some (OuternodeData a)
                   \<and> patch_data patch' ! m = Some (OuternodeData (fillAll a double_zero)))
           else patch_data patch' ! m = patch_data patch ! m)"
        if m: "m < length (patch_data patch)" for m
      proof (cases "m = n")
        case True
        with ih [OF m] arr m \<open>isSet pv n\<close> show ?thesis
          by (auto simp: fillAll_idem split: if_splits)
      next
        case False
        with ih [OF m] m show ?thesis by (auto split: if_splits)
      qed
      with d l r ok True show ?thesis by auto
    qed
  qed
qed

lemma selected_are_outernode_update:
  assumes "selected_are_outernode pv ns patch"
  shows "selected_are_outernode pv ns
     (patch\<lparr>patch_data := (patch_data patch)[n := Some (OuternodeData a)]\<rparr>)"
proof -
  have "cast_OuternodeData ((patch_data patch)[n := Some (OuternodeData a)] ! k) \<noteq> None"
    if "k < length (patch_data patch)" and "cast_OuternodeData (patch_data patch ! k) \<noteq> None"
    for k
    using that by (cases "k = n") simp_all
  with assms show ?thesis
    by (auto simp: selected_are_outernode_def list_all_iff)
qed

lemma components_loop_returns:
  "selected_are_outernode pv ns patch \<Longrightarrow> \<exists>patch'. components_loop debug pv ns patch = Inr patch'"
proof (induction ns arbitrary: patch)
  case Nil
  then show ?case by simp
next
  case (Cons n ns)
  show ?case
  proof (cases "isSet pv n")
    case False
    from Cons.prems have "selected_are_outernode pv ns patch"
      by (simp add: selected_are_outernode_def)
    from Cons.IH [OF this] False show ?thesis by simp
  next
    case True
    with Cons.prems obtain arrays where n: "n < length (patch_data patch)"
      and arr: "patch_data patch ! n = Some (OuternodeData arrays)"
      by (auto simp: selected_are_outernode_def cast_OuternodeData_Some)
    from Cons.prems have "selected_are_outernode pv ns patch"
      by (simp add: selected_are_outernode_def)
    from Cons.IH [OF selected_are_outernode_update [OF this]]
    show ?thesis by (simp only: components_loop_step [OF True n arr])
  qed
qed

lemma patches_loop_result:
  "patches_loop debug pv patches = Inr patches' \<Longrightarrow>
     length patches' = length patches
     \<and> (\<forall>i < length patches.
           components_loop debug pv [0 ..< length pv] (patches ! i) = Inr (patches' ! i))"
proof (induction patches arbitrary: patches')
  case Nil
  then show ?case by simp
next
  case (Cons p ps)
  from Cons.prems obtain p' ps' where p: "components_loop debug pv [0 ..< length pv] p = Inr p'"
    and ps: "patches_loop debug pv ps = Inr ps'" and eq: "patches' = p' # ps'"
    by (auto simp: bind_err_def split: sum.splits)
  from Cons.IH [OF ps] p eq show ?case
    by (auto simp: nth_Cons split: nat.splits)
qed

lemma patches_loop_returns:
  "list_all (selected_are_outernode pv [0 ..< length pv]) patches \<Longrightarrow>
     \<exists>patches'. patches_loop debug pv patches = Inr patches'"
proof (induction patches)
  case Nil
  then show ?case by simp
next
  case (Cons p ps)
  then obtain p' ps' where "components_loop debug pv [0 ..< length pv] p = Inr p'"
    "patches_loop debug pv ps = Inr ps'"
    using components_loop_returns [of pv "[0 ..< length pv]" p debug] by auto
  then show ?case by (simp add: bind_err_def)
qed

lemma preprocessScratchSpace_Inr:
  "preprocessScratchSpace debug level fill_time pv = Inr level' \<Longrightarrow>
     \<exists>l patches'. level = Some l \<and> patches_loop debug pv (level_patches l) = Inr patches'
        \<and> level' = l\<lparr>level_patches := patches'\<rparr>"
  by (cases level)
     (auto simp: preprocessScratchSpace_def debug_assert_def deref_def bind_err_def
           split: if_splits sum.splits)

text \<open>
  C2: when \<open>preprocessScratchSpace(level, time, selector)\<close> has returned, every component
  whose bit is set in the selector is, on every patch of the level, outernode data all of
  whose values are \<open>0.0\<close>. And the call does return whenever the level is not null and
  every selected component of every patch is outernode data of doubles.
\<close>

theorem C2_selected_components_zero:
  "(preprocessScratchSpace debug level fill_time preprocess_vector = Inr level' \<longrightarrow>
      (\<forall>patch' \<in> set (level_patches level'). \<forall>n. isSet preprocess_vector n \<longrightarrow>
          n < length (patch_data patch') \<and> all_zero (patch_data patch' ! n)))
   \<and> (level = Some l
        \<and> list_all (selected_are_outernode preprocess_vector [0 ..< length preprocess_vector])
             (level_patches l) \<longrightarrow>
      (\<exists>level''. preprocessScratchSpace debug level fill_time preprocess_vector = Inr level''))"
proof (intro conjI impI ballI allI)
  fix patch' n
  assume run: "preprocessScratchSpace debug level fill_time preprocess_vector = Inr level'"
    and p': "patch' \<in> set (level_patches level')" and sel: "isSet preprocess_vector n"
  from preprocessScratchSpace_Inr [OF run] obtain l0 patches'
    where loop: "patches_loop debug preprocess_vector (level_patches l0) = Inr patches'"
      and lv: "level' = l0\<lparr>level_patches := patches'\<rparr>"
    by blast
  from p' lv obtain i where i: "i < length patches'" and pi: "patch' = patches' ! i"
    by (auto simp: in_set_conv_nth)
  from patches_loop_result [OF loop] i
  have c: "components_loop debug preprocess_vector [0 ..< length preprocess_vector]
             (level_patches l0 ! i) = Inr patch'"
    by (simp add: pi)
  note res = components_loop_result [OF c]
  from sel have nin: "n \<in> set [0 ..< length preprocess_vector]" by (simp add: isSet_def)
  with res sel have n: "n < length (patch_data (level_patches l0 ! i))" by blast
  with res nin sel obtain arrays
    where "patch_data patch' ! n = Some (OuternodeData (fillAll arrays double_zero))"
    by (metis (no_types, lifting))
  with n res show "n < length (patch_data patch')" and "all_zero (patch_data patch' ! n)"
    by (simp_all add: all_zero_fillAll)
next
  assume "level = Some l
        \<and> list_all (selected_are_outernode preprocess_vector [0 ..< length preprocess_vector])
             (level_patches l)"
  then have lv: "level = Some l"
    and ok: "list_all (selected_are_outernode preprocess_vector [0 ..< length preprocess_vector])
             (level_patches l)"
    by simp_all
  from patches_loop_returns [OF ok, of debug] obtain patches'
    where "patches_loop debug preprocess_vector (level_patches l) = Inr patches'" by blast
  with lv show "\<exists>level''. preprocessScratchSpace debug level fill_time preprocess_vector = Inr level''"
    by (simp add: preprocessScratchSpace_def debug_assert_def deref_def bind_err_def)
qed

text \<open>
  C10: when \<open>preprocessScratchSpace\<close> has returned, the level has the same patches in the
  same order, each with the same components, and every component of every patch whose bit
  is not set in the selector is what it was; and the outcome of the call, result or
  failure, is the same for every value of \<open>fill_time\<close>.
\<close>

theorem C10_unselected_components_unchanged:
  "(preprocessScratchSpace debug level fill_time preprocess_vector = Inr level' \<longrightarrow>
      (\<exists>l. level = Some l
         \<and> level_dim level' = level_dim l
         \<and> length (level_patches level') = length (level_patches l)
         \<and> (\<forall>i < length (level_patches l).
               patch_dim (level_patches level' ! i) = patch_dim (level_patches l ! i)
               \<and> length (patch_data (level_patches level' ! i))
                   = length (patch_data (level_patches l ! i))
               \<and> (\<forall>n < length (patch_data (level_patches l ! i)).
                     \<not> isSet preprocess_vector n \<longrightarrow>
                     patch_data (level_patches level' ! i) ! n
                       = patch_data (level_patches l ! i) ! n))))
   \<and> preprocessScratchSpace debug level fill_time preprocess_vector
       = preprocessScratchSpace debug level other_time preprocess_vector"
proof (intro conjI impI)
  assume run: "preprocessScratchSpace debug level fill_time preprocess_vector = Inr level'"
  from preprocessScratchSpace_Inr [OF run] obtain l patches'
    where lv: "level = Some l"
      and loop: "patches_loop debug preprocess_vector (level_patches l) = Inr patches'"
      and lv': "level' = l\<lparr>level_patches := patches'\<rparr>"
    by blast
  note pl = patches_loop_result [OF loop]
  have "patch_dim (patches' ! i) = patch_dim (level_patches l ! i)
        \<and> length (patch_data (patches' ! i)) = length (patch_data (level_patches l ! i))
        \<and> (\<forall>n < length (patch_data (level_patches l ! i)).
              \<not> isSet preprocess_vector n \<longrightarrow>
              patch_data (patches' ! i) ! n = patch_data (level_patches l ! i) ! n)"
    if i: "i < length (level_patches l)" for i
  proof -
    from pl i have c: "components_loop debug preprocess_vector [0 ..< length preprocess_vector]
             (level_patches l ! i) = Inr (patches' ! i)" by blast
    note res = components_loop_result [OF c]
    have "patch_data (patches' ! i) ! n = patch_data (level_patches l ! i) ! n"
      if "n < length (patch_data (level_patches l ! i))" and "\<not> isSet preprocess_vector n" for n
      using res that by (metis (no_types, lifting))
    with res show ?thesis by simp
  qed
  with lv lv' pl
  show "\<exists>l. level = Some l
         \<and> level_dim level' = level_dim l
         \<and> length (level_patches level') = length (level_patches l)
         \<and> (\<forall>i < length (level_patches l).
               patch_dim (level_patches level' ! i) = patch_dim (level_patches l ! i)
               \<and> length (patch_data (level_patches level' ! i))
                   = length (patch_data (level_patches l ! i))
               \<and> (\<forall>n < length (patch_data (level_patches l ! i)).
                     \<not> isSet preprocess_vector n \<longrightarrow>
                     patch_data (level_patches level' ! i) ! n
                       = patch_data (level_patches l ! i) ! n))"
    by simp
next
  show "preprocessScratchSpace debug level fill_time preprocess_vector
       = preprocessScratchSpace debug level other_time preprocess_vector"
    by (simp add: preprocessScratchSpace_def)
qed

lemma example_level_run:
  "preprocessScratchSpace debug (Some example_level) t [True, False, False] = Inr example_level_filled"
  by (simp add: preprocessScratchSpace_def debug_assert_def deref_def bind_err_def
      example_level_def example_level_filled_def upt_rec isSet_def getPatchData_def
      fillAll_def double_zero_def)

theorem C2_selected_components_zero_witness:
  "preprocessScratchSpace True (Some example_level) 17 [True, False, False]
     = Inr example_level_filled
   \<and> list_all (selected_are_outernode [True, False, False] [0 ..< length [True, False, False]])
        (level_patches example_level)
   \<and> all_zero (patch_data (level_patches example_level_filled ! 0) ! 0)
   \<and> all_zero (patch_data (level_patches example_level_filled ! 1) ! 0)
   \<and> (\<exists>level''. preprocessScratchSpace True (Some example_level) 17 [True, False, False]
         = Inr level'')"
  using C2_selected_components_zero [of True "Some example_level" 17 "[True, False, False]"
      example_level_filled example_level]
    example_level_run [of True 17]
  by (simp add: example_level_filled_def example_level_def all_zero_def double_zero_def
      selected_are_outernode_def isSet_def upt_rec)

theorem C10_unselected_components_unchanged_witness:
  "preprocessScratchSpace True (Some example_level) 17 [True, False, False]
     = Inr example_level_filled
   \<and> patch_data (level_patches example_level_filled ! 0) ! 1
       = patch_data (level_patches example_level ! 0) ! 1
   \<and> patch_data (level_patches example_level_filled ! 1) ! 1
       = patch_data (level_patches example_level ! 1) ! 1
   \<and> preprocessScratchSpace True (Some example_level) 17 [True, False, False]
       = preprocessScratchSpace True (Some example_level) 42 [True, False, False]"
  using C10_unselected_components_unchanged [of True "Some example_level" 17
      "[True, False, False]" example_level_filled 42]
    example_level_run [of True 17]
  by (simp add: example_level_filled_def example_level_def)


section \<open>The two allocate overloads\<close>

text \<open>
  The checks of the nine-argument overload do not look at the clip box or at the
  interpolation flag, and running them twice is running them once.
\<close>

lemma allocate_assertions_idem:
  "allocate_assertions debug dl sl ov dn sn rd (allocate_assertions debug dl sl ov dn sn rd k)
   = allocate_assertions debug dl sl ov dn sn rd k"
  by (simp add: allocate_assertions_def debug_assert_def deref_def split: option.splits)

lemma allocate_assertions_pass:
  assumes "debug \<longrightarrow> rd \<noteq> None \<and> box_local_id dn \<ge> 0 \<and> box_local_id sn \<ge> 0 \<and> ov \<noteq> None
      \<and> objdim_equality4 (level_dim dl) (level_dim sl) (Box_getDim dn) (Box_getDim sn)"
  shows "allocate_assertions debug (Some dl) (Some sl) ov dn sn rd k = k"
  using assms
  by (auto simp add: allocate_assertions_def debug_assert_def deref_def)



text \<open>
  C4: for non-null destination and source levels, a non-null overlap and boxes with
  non-negative local ids, the six-argument \<open>allocate\<close> returns what the nine-argument
  \<open>allocate\<close> returns when the defaults are passed explicitly, the clip box being the
  empty box of the destination level's dimension that \<open>hier::Box(dst_level->getDim())\<close>
  builds and time interpolation off. The nine-argument overload never reads the two, so
  the same holds for any clip box and flag; and with refine data present and equal
  dimensions both return the same transaction, in debug and release builds.
\<close>

theorem C4_six_argument_allocate:
  assumes "dst_level = Some dl" and "src_level = Some sl" and "overlap \<noteq> None"
    and "box_local_id dst_node \<ge> 0" and "box_local_id src_node \<ge> 0"
  shows "allocate6 debug dst_level src_level overlap dst_node src_node refine_data item_id
           = allocate debug dst_level src_level overlap dst_node src_node refine_data item_id
               (Box_empty (level_dim dl)) False
         \<and> allocate6 debug dst_level src_level overlap dst_node src_node refine_data item_id
           = allocate debug dst_level src_level overlap dst_node src_node refine_data item_id
               box use_time_interpolation
         \<and> (refine_data \<noteq> None
              \<and> objdim_equality4 (level_dim dl) (level_dim sl)
                   (Box_getDim dst_node) (Box_getDim src_node) \<longrightarrow>
            allocate6 debug dst_level src_level overlap dst_node src_node refine_data item_id
              = Inr \<lparr>tr_dst_level = dst_level, tr_src_level = src_level, tr_overlap = overlap,
                     tr_dst_node = dst_node, tr_src_node = src_node,
                     tr_refine_data = refine_data, tr_item_id = item_id\<rparr>)"
  using assms
  by (simp add: allocate6_def allocate_def allocate_assertions_idem deref_def
      allocate_assertions_pass)

theorem C4_six_argument_allocate_witness:
  "Some OtherOverlap \<noteq> None
   \<and> box_local_id (example_box 0) \<ge> 0 \<and> box_local_id (example_box 1) \<ge> 0
   \<and> allocate6 True (Some example_level2) (Some example_level2) (Some OtherOverlap)
        (example_box 0) (example_box 1) (Some ()) 5
      = allocate True (Some example_level2) (Some example_level2) (Some OtherOverlap)
        (example_box 0) (example_box 1) (Some ()) 5 (Box_empty (level_dim example_level2)) False
   \<and> allocate6 True (Some example_level2) (Some example_level2) (Some OtherOverlap)
        (example_box 0) (example_box 1) (Some ()) 5
      = Inr \<lparr>tr_dst_level = Some example_level2, tr_src_level = Some example_level2,
             tr_overlap = Some OtherOverlap,
             tr_dst_node = example_box 0, tr_src_node = example_box 1,
             tr_refine_data = Some (), tr_item_id = 5\<rparr>"
proof -
  have h3: "Some OtherOverlap \<noteq> None" by simp
  have h4: "box_local_id (example_box 0) \<ge> 0" by (simp add: example_box_def)
  have h5: "box_local_id (example_box 1) \<ge> 0" by (simp add: example_box_def)
  have h6: "Some () \<noteq> None
     \<and> objdim_equality4 (level_dim example_level2) (level_dim example_level2)
          (Box_getDim (example_box 0)) (Box_getDim (example_box 1))"
    by (simp add: example_level2_def example_box_def objdim_equality4_def Box_getDim_def)
  note T = C4_six_argument_allocate [where dl = example_level2 and sl = example_level2
      and debug = True and refine_data = "Some ()" and item_id = 5
      and box = "Box_empty (level_dim example_level2)" and use_time_interpolation = False,
      OF refl refl h3 h4 h5]
  from T have a: "allocate6 True (Some example_level2) (Some example_level2) (Some OtherOverlap)
        (example_box 0) (example_box 1) (Some ()) 5
      = allocate True (Some example_level2) (Some example_level2) (Some OtherOverlap)
        (example_box 0) (example_box 1) (Some ()) 5 (Box_empty (level_dim example_level2)) False"
    by (rule conjunct1)
  from T h6 have b: "allocate6 True (Some example_level2) (Some example_level2)
        (Some OtherOverlap) (example_box 0) (example_box 1) (Some ()) 5
      = Inr \<lparr>tr_dst_level = Some example_level2, tr_src_level = Some example_level2,
             tr_overlap = Some OtherOverlap,
             tr_dst_node = example_box 0, tr_src_node = example_box 1,
             tr_refine_data = Some (), tr_item_id = 5\<rparr>"
    by blast
  show ?thesis by (intro conjI h3 h4 h5 a b)
qed

section \<open>The coarse index of a fine index\<close>

text \<open>
  C++ division truncates toward zero; the expression of the kernels,
  \<open>(k < 0) ? (k + 1) / r - 1 : k / r\<close>, is the floor of \<open>k / r\<close> for a positive ratio.
\<close>

lemma sdiv_nonneg_pos: "0 \<le> k \<Longrightarrow> 0 < r \<Longrightarrow> k sdiv r = k div (r::int)"
  by (cases "k = 0") (simp_all add: signed_divide_int_def)

lemma sdiv_nonpos_pos: "k \<le> 0 \<Longrightarrow> 0 < r \<Longrightarrow> k sdiv r = - ((- k) div (r::int))"
  by (cases "k = 0") (simp_all add: signed_divide_int_def)

lemma div_of_complement:
  fixes k r :: int
  assumes "0 < r"
  shows "(- k - 1) div r = - (k div r) - 1"
proof (rule int_div_pos_eq)
  have "k = r * (k div r) + k mod r" by simp
  then have "- k - 1 = r * (- (k div r)) - k mod r - 1" by (simp add: algebra_simps)
  also have "\<dots> = r * (- (k div r) - 1) + (r - k mod r - 1)" by (simp add: algebra_simps)
  finally show "- k - 1 = r * (- (k div r) - 1) + (r - k mod r - 1)" .
  from assms have "k mod r < r" and "0 \<le> k mod r" by simp_all
  then show "0 \<le> r - k mod r - 1" and "r - k mod r - 1 < r" by linarith+
qed

lemma coarsen_index_floor: 
  assumes "0 < r" shows "coarsen_index k r = k div r"
proof (cases "k < 0")
  case True
  have "- (k + 1) = - k - 1" by simp
  with True have "(k + 1) sdiv r = - ((- k - 1) div r)"
    using sdiv_nonpos_pos [of "k + 1" r] assms by simp
  with True show ?thesis by (simp only: coarsen_index_def div_of_complement [OF assms]) simp
next
  case False
  then show ?thesis using assms by (simp add: coarsen_index_def sdiv_nonneg_pos)
qed

lemma coarsen_index_bounds:
  assumes "0 < r"
  shows "r * coarsen_index k r \<le> k \<and> k < r * coarsen_index k r + r"
proof -
  have "r * (k div r) + k mod r = k" by simp
  moreover have "0 \<le> k mod r" "k mod r < r" using assms by simp_all
  ultimately show ?thesis unfolding coarsen_index_floor [OF assms] by linarith
qed

text \<open>
  For a positive ratio the coarse index is no farther from zero than the fine one, so
  the arithmetic of the kernels stays within \<open>int\<close> whenever the fine index does.
\<close>

lemma coarsen_index_in_range:
  assumes "0 < r" and "- (2 ^ 31) \<le> k" and "k < 2 ^ 31"
  shows "- (2 ^ 31) \<le> coarsen_index k r \<and> coarsen_index k r < 2 ^ 31"
proof -
  note b = coarsen_index_bounds [OF assms(1), of k]
  have "coarsen_index k r \<le> r * coarsen_index k r \<or> coarsen_index k r < 0"
    using assms(1) by (cases "coarsen_index k r < 0") (simp_all add: mult_le_cancel_right1)
  moreover have "k \<le> coarsen_index k r \<or> 0 \<le> coarsen_index k r"
  proof (cases "0 \<le> coarsen_index k r")
    case False
    then have "coarsen_index k r \<le> - 1" by simp
    have "r * (coarsen_index k r + 1) \<le> coarsen_index k r + 1"
      using assms(1) False by (simp add: mult_le_cancel_right2)
    with b show ?thesis by (simp add: algebra_simps)
  qed simp
  ultimately show ?thesis using b assms by linarith
qed

section \<open>The kernels over a box\<close>

text \<open>
  A loop whose body writes, at a key of its own, a value read from a source that the
  loop does not change, ends in a state given in closed form; so the order of its
  iterations does not matter.
\<close>

lemma for_each_write:
  assumes body: "\<And>s i. body s i =
      (if pre i \<and> s (key i) \<noteq> None then Inr (s(key i \<mapsto> val i)) else Inl UndefinedBehaviour)"
    and unkey: "\<And>i. unkey (key i) = i"
  shows "for_each body xs s =
     (if \<forall>i \<in> set xs. pre i \<and> s (key i) \<noteq> None
      then Inr (\<lambda>x. if x \<in> key ` set xs then Some (val (unkey x)) else s x)
      else Inl UndefinedBehaviour)"
proof (induction xs arbitrary: s)
  case Nil
  show ?case by simp
next
  case (Cons a xs)
  show ?case
  proof (cases "pre a \<and> s (key a) \<noteq> None")
    case False
    then show ?thesis by (auto simp: body bind_err_def)
  next
    case True
    let ?s1 = "s(key a \<mapsto> val a)"
    have dom: "(?s1 (key i) \<noteq> None) = (s (key i) \<noteq> None)" for i
      using True by auto
    have fn: "(\<lambda>x. if x \<in> key ` set xs then Some (val (unkey x)) else ?s1 x)
            = (\<lambda>x. if x \<in> key ` set (a # xs) then Some (val (unkey x)) else s x)"
      by (rule ext) (auto simp: unkey)
    have "for_each body (a # xs) s = for_each body xs ?s1"
      using True by (simp add: body bind_err_def)
    also note Cons.IH [of ?s1]
    finally show ?thesis using True by (simp only: dom fn) simp
  qed
qed


lemma refine_body2_write:
  "(case i of (j, k) \<Rightarrow> refine_body2 r0 r1 coarse_array s j k) =
     (if (case i of (j, k) \<Rightarrow> r1 \<noteq> 0 \<and> r0 \<noteq> 0
             \<and> coarse_array [coarsen_index j r0, coarsen_index k r1] \<noteq> None)
         \<and> s (case i of (j, k) \<Rightarrow> [j, k]) \<noteq> None
      then Inr (s((case i of (j, k) \<Rightarrow> [j, k]) \<mapsto>
                  (case i of (j, k) \<Rightarrow> the (coarse_array [coarsen_index j r0, coarsen_index k r1]))))
      else Inl UndefinedBehaviour)"
  by (cases i) (auto simp: refine_body2_def Let_def split: option.splits)




lemma for_each_write_returns:
  assumes body: "\<And>s i. body s i =
      (if pre i \<and> s (key i) \<noteq> None then Inr (s(key i \<mapsto> val i)) else Inl UndefinedBehaviour)"
    and unkey: "\<And>i. unkey (key i) = i"
    and ok: "\<forall>i \<in> set xs. pre i \<and> s (key i) \<noteq> None"
  shows "\<exists>s'. for_each body xs s = Inr s'"
  using ok unfolding for_each_write [of body pre key val unkey, OF body unkey]
  by simp


lemma unkey2: "(case (case i of (j, k) \<Rightarrow> [j, k]) of x \<Rightarrow> (x ! 0, x ! 1)) = (i :: int \<times> int)"
  by (cases i) simp








lemma kernel2_returns:
  assumes "r0 \<noteq> 0" and "r1 \<noteq> 0"
    and "\<forall>(j, k) \<in> set order. fine_array [j, k] \<noteq> None
           \<and> coarse_array [coarsen_index j r0, coarsen_index k r1] \<noteq> None"
  shows "\<exists>fine'. for_each (\<lambda>s (j, k). refine_body2 r0 r1 coarse_array s j k) order fine_array
           = Inr fine'"
  by (rule for_each_write_returns [OF refine_body2_write unkey2]) (use assms in auto)









section \<open>The refine operator in two and three dimensions\<close>











lemma fine_box_plus2_bounds:
  assumes "axis < 2"
  shows "box_lower (fine_box_plus2 axis (fine_box_of 2 axis fb)) ! 0 = box_lower fb ! 0
    \<and> box_lower (fine_box_plus2 axis (fine_box_of 2 axis fb)) ! 1 = box_lower fb ! 1
    \<and> box_upper (fine_box_plus2 axis (fine_box_of 2 axis fb)) ! 0 = box_upper fb ! 0
    \<and> box_upper (fine_box_plus2 axis (fine_box_of 2 axis fb)) ! 1 = box_upper fb ! 1"
proof -
  from assms consider "axis = 0" | "axis = 1" by linarith
  then show ?thesis
    by cases
      (simp_all add: fine_box_plus2_def fine_box_of_def Box_empty_def setLower_def setUpper_def
        growUpper_def Let_def upt_rec eval_nat_numeral)
qed

lemma box_indices2_fine_box_plus:
  assumes "axis < 2"
  shows "box_indices2 (fine_box_plus2 axis (fine_box_of 2 axis fb)) = box_indices2 fb"
proof -
  note b = fine_box_plus2_bounds [OF assms]
  from b have l0: "box_lower (fine_box_plus2 axis (fine_box_of 2 axis fb)) ! 0 = box_lower fb ! 0"
    by (rule conjunct1)
  from b have l1: "box_lower (fine_box_plus2 axis (fine_box_of 2 axis fb)) ! 1 = box_lower fb ! 1"
    by (rule conjunct2 [THEN conjunct1])
  from b have u0: "box_upper (fine_box_plus2 axis (fine_box_of 2 axis fb)) ! 0 = box_upper fb ! 0"
    by (rule conjunct2 [THEN conjunct2, THEN conjunct1])
  from b have u1: "box_upper (fine_box_plus2 axis (fine_box_of 2 axis fb)) ! 1 = box_upper fb ! 1"
    by (rule conjunct2 [THEN conjunct2, THEN conjunct2])
  show ?thesis unfolding box_indices2_def l0 l1 u0 u1 ..
qed


lemma upt_0_2: "[0 ..< 2] = [0, 1]"
  by (simp add: upt_rec)
















lemma cast_FaceData_Some: "cast_FaceData pd = Some fd \<longleftrightarrow> pd = Some (FaceData fd)"
  by (cases pd rule: cast_FaceData.cases) auto

lemma cast_FaceOverlap_Some: "cast_FaceOverlap ov = Some boxes \<longleftrightarrow> ov = FaceOverlap boxes"
  by (cases ov) auto

lemma deref_Inr: "deref p k = Inr y \<longleftrightarrow> (\<exists>x. p = Some x \<and> k x = Inr y)"
  by (cases p) (simp_all add: deref_def)

lemma bind_err_Inr: "bind_err m k = Inr y \<longleftrightarrow> (\<exists>x. m = Inr x \<and> k x = Inr y)"
  by (cases m) (simp_all add: bind_err_def)

lemma debug_assert_Inr: "debug_assert debug c e k = Inr y \<longleftrightarrow> ((debug \<longrightarrow> c) \<and> k = Inr y)"
  by (auto simp: debug_assert_def)

lemma dim_assert_Inr: "dim_assert debug c k = Inr y \<longleftrightarrow> (c \<and> k = Inr y)"
  by (auto simp: dim_assert_def)

lemma refine_Inr:
  assumes "refine debug have_raja ff fine coarse dst_component src_component fine_overlap ratio
             = Inr fine'"
  shows "\<exists>c f boxes f'.
           getPatchData debug coarse src_component = Inr (Some (FaceData c))
           \<and> getPatchData debug fine dst_component = Inr (Some (FaceData f))
           \<and> fine_overlap = FaceOverlap boxes
           \<and> patch_dim coarse = patch_dim fine \<and> length ratio = patch_dim fine
           \<and> for_each (refine_axis_step debug have_raja ff (patch_dim fine) ratio c boxes)
                [0 ..< patch_dim fine] f = Inr f'
           \<and> fine' = fine\<lparr>patch_data :=
                        (patch_data fine)[nat dst_component := Some (FaceData f')]\<rparr>"
  using assms
  unfolding refine_def Let_def bind_err_Inr debug_assert_Inr deref_Inr dim_assert_Inr
    cast_FaceData_Some cast_FaceOverlap_Some objdim_equality3_def
  by (elim exE conjE) auto

lemma getPatchData_Inr:
  "getPatchData debug patch n = Inr pd \<longleftrightarrow>
     (0 \<le> n \<and> n < int (length (patch_data patch)) \<and> pd = patch_data patch ! nat n)"
  by (auto simp: getPatchData_def)



section \<open>Failures of the refine operator\<close>

text \<open>
  Above three dimensions the innermost loop body fails and nothing is written; below,
  the only place a \<open>DimensionMismatch\<close> comes from is a dimension assertion.
\<close>

lemma for_each_noop_or_fail:
  assumes "\<And>x. x \<in> set xs \<Longrightarrow> body s x = Inr s \<or> body s x = Inl e"
    and "\<exists>x \<in> set xs. body s x = Inl e"
  shows "for_each body xs s = Inl e"
  using assms
proof (induction xs)
  case Nil
  then show ?case by simp
next
  case (Cons a xs)
  show ?case
  proof (cases "body s a = Inl e")
    case True
    then show ?thesis by (simp add: bind_err_def)
  next
    case False
    with Cons.prems have a: "body s a = Inr s" and ex: "\<exists>x \<in> set xs. body s x = Inl e"
      by auto
    from Cons.IH [OF _ ex] Cons.prems(1) have "for_each body xs s = Inl e" by simp
    with a show ?thesis by (simp add: bind_err_def)
  qed
qed

lemma for_each_noop:
  assumes "\<And>x. x \<in> set xs \<Longrightarrow> body s x = Inr s"
  shows "for_each body xs s = Inr s"
  using assms by (induction xs) (simp_all add: bind_err_def)

lemma for_each_unchanged:
  assumes "for_each body xs s = Inr s'"
    and "\<And>t x t'. x \<in> set xs \<Longrightarrow> body t x = Inr t' \<Longrightarrow> t' = t"
  shows "s' = s"
  using assms
proof (induction xs arbitrary: s)
  case Nil
  then show ?case by simp
next
  case (Cons a xs)
  from Cons.prems(1) obtain s1 where s1: "body s a = Inr s1" and r: "for_each body xs s1 = Inr s'"
    by (auto simp: bind_err_Inr)
  from Cons.prems(2) [OF _ s1] have eq: "s1 = s" by simp
  have "s' = s1"
    by (rule Cons.IH [OF r]) (use Cons.prems(2) in auto)
  with eq show ?case by simp
qed

lemma depth_step_unsupported:
  "3 < dim \<Longrightarrow>
   refine_depth_step have_raja ff dim ratio cdata axis fine_box coarse_box f d
     = Inl UnsupportedDimension"
  by (simp add: refine_depth_step_def)

lemma box_step_high_dim:
  assumes "3 < dim"
  shows "refine_box_step debug have_raja ff dim ratio cdata axis f face_box =
     (if Box_getDim face_box \<noteq> dim
      then Inl (if debug then DimensionMismatch else UndefinedBehaviour)
      else if list_ex (\<lambda>r. r = 0) ratio then Inl UndefinedBehaviour
      else if 0 < fd_depth f then Inl UnsupportedDimension else Inr f)"
proof -
  have "for_each (refine_depth_step have_raja ff dim ratio cdata axis fb cb)
          [0 ..< nat (fd_depth f)] f
        = (if 0 < fd_depth f then Inl UnsupportedDimension else Inr f)" for fb cb
  proof (cases "0 < fd_depth f")
    case True
    then have "[0 ..< nat (fd_depth f)] = 0 # [1 ..< nat (fd_depth f)]"
      by (simp add: upt_rec)
    then show ?thesis using True assms by (simp add: depth_step_unsupported bind_err_def)
  next
    case False
    then show ?thesis by simp
  qed
  then show ?thesis
    by (simp add: refine_box_step_def dim_assert_def Box_coarsen_def bind_err_def Let_def)
qed

lemma axis_step_high_dim:
  assumes "3 < dim" and "axis < length boxes"
    and "\<forall>b \<in> set (boxes ! axis). Box_getDim b = dim"
    and "\<not> list_ex (\<lambda>r. r = 0) ratio" and "0 < fd_depth f"
  shows "refine_axis_step debug have_raja ff dim ratio cdata boxes f axis =
     (if boxes ! axis = [] then Inr f else Inl UnsupportedDimension)"
proof (cases "boxes ! axis")
  case Nil
  with assms(2) show ?thesis by (simp add: refine_axis_step_def)
next
  case (Cons b bs)
  with assms have "refine_box_step debug have_raja ff dim ratio cdata axis f b
      = Inl UnsupportedDimension"
    by (simp add: box_step_high_dim)
  with Cons assms(2) show ?thesis by (simp add: refine_axis_step_def bind_err_def)
qed

lemma axis_step_high_dim_unchanged:
  assumes "3 < dim" and "refine_axis_step debug have_raja ff dim ratio cdata boxes f axis = Inr f'"
  shows "f' = f"
proof -
  from assms(2) have loop: "for_each (refine_box_step debug have_raja ff dim ratio cdata axis)
      (boxes ! axis) f = Inr f'"
    by (simp add: refine_axis_step_def split: if_splits)
  show ?thesis
    by (rule for_each_unchanged [OF loop])
       (simp add: box_step_high_dim [OF assms(1)] split: if_splits)
qed

lemma refine_contract_ok:
  assumes "getPatchData debug coarse src_component = Inr (Some (FaceData c))"
    and "getPatchData debug fine dst_component = Inr (Some (FaceData f))"
    and "fine_overlap = FaceOverlap boxes"
    and "debug \<longrightarrow> fd_depth c = fd_depth f"
  shows "refine debug have_raja ff fine coarse dst_component src_component fine_overlap ratio =
     (if objdim_equality3 (patch_dim fine) (patch_dim coarse) (length ratio)
      then bind_err
             (for_each (refine_axis_step debug have_raja ff (patch_dim fine) ratio c boxes)
                [0 ..< patch_dim fine] f)
             (\<lambda>f'. Inr (fine\<lparr>patch_data :=
                            (patch_data fine)[nat dst_component := Some (FaceData f')]\<rparr>))
      else Inl (if debug then DimensionMismatch else UndefinedBehaviour))"
  using assms
  by (auto simp add: refine_def Let_def bind_err_def debug_assert_def deref_def dim_assert_def)

lemma refine_high_dim_unchanged:
  assumes "3 < patch_dim fine"
    and run: "refine debug have_raja ff fine coarse dst_component src_component fine_overlap ratio
           = Inr fine'"
  shows "fine' = fine"
proof -
  from refine_Inr [OF run] obtain c f boxes f' where
    gf: "getPatchData debug fine dst_component = Inr (Some (FaceData f))"
    and loop: "for_each (refine_axis_step debug have_raja ff (patch_dim fine) ratio c boxes)
                [0 ..< patch_dim fine] f = Inr f'"
    and fine': "fine' = fine\<lparr>patch_data :=
                        (patch_data fine)[nat dst_component := Some (FaceData f')]\<rparr>"
    by blast
  have "f' = f"
    by (rule for_each_unchanged [OF loop]) (rule axis_step_high_dim_unchanged [OF assms(1)])
  with gf fine' show ?thesis by (simp add: getPatchData_Inr)
qed

lemma refine_high_dim_fails:
  assumes dim: "3 < patch_dim fine"
    and gc: "getPatchData debug coarse src_component = Inr (Some (FaceData c))"
    and gf: "getPatchData debug fine dst_component = Inr (Some (FaceData f))"
    and ov: "fine_overlap = FaceOverlap boxes"
    and depth: "fd_depth c = fd_depth f"
    and dims: "objdim_equality3 (patch_dim fine) (patch_dim coarse) (length ratio)"
    and len: "length boxes = patch_dim fine"
    and bdim: "\<forall>bs \<in> set boxes. \<forall>b \<in> set bs. Box_getDim b = patch_dim fine"
    and ratio: "\<not> list_ex (\<lambda>r. r = 0) ratio"
    and work: "\<exists>bs \<in> set boxes. bs \<noteq> []" "0 < fd_depth f"
  shows "refine debug have_raja ff fine coarse dst_component src_component fine_overlap ratio
           = Inl UnsupportedDimension"
proof -
  let ?body = "refine_axis_step debug have_raja ff (patch_dim fine) ratio c boxes"
  have step: "?body f axis = (if boxes ! axis = [] then Inr f else Inl UnsupportedDimension)"
    if "axis < patch_dim fine" for axis
    using that len bdim by (intro axis_step_high_dim dim ratio work(2)) auto
  from work(1) len obtain axis where "axis < patch_dim fine" "boxes ! axis \<noteq> []"
    by (auto simp: in_set_conv_nth)
  then have "\<exists>x \<in> set [0 ..< patch_dim fine]. ?body f x = Inl UnsupportedDimension"
    using step by auto
  moreover have "?body f x = Inr f \<or> ?body f x = Inl UnsupportedDimension"
    if "x \<in> set [0 ..< patch_dim fine]" for x
    using that step by auto
  ultimately have "for_each ?body [0 ..< patch_dim fine] f = Inl UnsupportedDimension"
    by (intro for_each_noop_or_fail) auto
  then show ?thesis
    using dims depth by (simp add: refine_contract_ok [OF gc gf ov] bind_err_def)
qed

lemma refine_high_dim_empty:
  assumes gc: "getPatchData debug coarse src_component = Inr (Some (FaceData c))"
    and gf: "getPatchData debug fine dst_component = Inr (Some (FaceData f))"
    and ov: "fine_overlap = FaceOverlap boxes"
    and depth: "fd_depth c = fd_depth f"
    and dims: "objdim_equality3 (patch_dim fine) (patch_dim coarse) (length ratio)"
    and len: "length boxes = patch_dim fine"
    and empty: "\<forall>bs \<in> set boxes. bs = []"
  shows "refine debug have_raja ff fine coarse dst_component src_component fine_overlap ratio
           = Inr fine"
proof -
  let ?body = "refine_axis_step debug have_raja ff (patch_dim fine) ratio c boxes"
  have "?body f axis = Inr f" if "axis \<in> set [0 ..< patch_dim fine]" for axis
  proof -
    from that len have "axis < length boxes" by simp
    with empty have "boxes ! axis = []" by simp
    with \<open>axis < length boxes\<close> show ?thesis by (simp add: refine_axis_step_def)
  qed
  then have "for_each ?body [0 ..< patch_dim fine] f = Inr f"
    by (rule for_each_noop)
  then show ?thesis
    using dims depth gf
    by (simp add: refine_contract_ok [OF gc gf ov] bind_err_def getPatchData_Inr)
qed














lemma debug_assert_Inl:
  "debug_assert debug c e' k = Inl e \<longleftrightarrow> (debug \<and> \<not> c \<and> e = e') \<or> ((debug \<longrightarrow> c) \<and> k = Inl e)"
  by (auto simp: debug_assert_def)

lemma deref_Inl:
  "deref p k = Inl e \<longleftrightarrow> (p = None \<and> e = UndefinedBehaviour) \<or> (\<exists>x. p = Some x \<and> k x = Inl e)"
  by (cases p) (auto simp: deref_def)

lemma dim_assert_Inl:
  "dim_assert debug c k = Inl e \<longleftrightarrow>
     (\<not> c \<and> e = (if debug then DimensionMismatch else UndefinedBehaviour)) \<or> (c \<and> k = Inl e)"
  by (auto simp: dim_assert_def)



section \<open>The refine operator returns\<close>














section \<open>Constant refinement takes the floor cell\<close>

lemma ex_box_indices: "box_indices2 ex_face_box = [(- 2, 0), (- 1, 0), (0, 0), (1, 0)]"
  by (simp add: box_indices2_def ex_face_box_def upto_rec1)

lemma ex_fine_box: "fine_box_plus2 0 (fine_box_of 2 0 ex_face_box)
   = \<lparr>box_lower = [- 2, 0], box_upper = [1, 0], box_local_id = - 1\<rparr>"
  by (simp add: fine_box_plus2_def fine_box_of_def Box_empty_def setLower_def setUpper_def
        growUpper_def Let_def upt_rec eval_nat_numeral ex_face_box_def)

lemma ex_kernel_run:
  "\<exists>fa'. parallel_for_all2 (fine_box_plus2 0 (fine_box_of 2 0 ex_face_box))
      (refine_body2 2 2 (fd_array ex_coarse_data 0 0)) (fd_array ex_fine_data 0 0) = Inr fa'"
  unfolding parallel_for_all2_def
  by (rule kernel2_returns)
     (simp_all add: box_indices2_fine_box_plus ex_box_indices ex_fine_data_def ex_coarse_data_def
       coarsen_index_floor)

lemma ex_refine_run:
  "\<exists>fine'. refine True True no_fortran ex_fine ex_coarse 0 0 ex_overlap [2, 2] = Inr fine'"
proof -
  from ex_kernel_run obtain fa' where
    k: "parallel_for_all2 (fine_box_plus2 0 (fine_box_of 2 0 ex_face_box))
      (refine_body2 2 2 (fd_array ex_coarse_data 0 0)) (fd_array ex_fine_data 0 0) = Inr fa'"
    by blast
  have gc: "getPatchData True ex_coarse 0 = Inr (Some (FaceData ex_coarse_data))"
    by (simp add: getPatchData_def ex_coarse_def)
  have gf: "getPatchData True ex_fine 0 = Inr (Some (FaceData ex_fine_data))"
    by (simp add: getPatchData_def ex_fine_def)
  have d: "True \<longrightarrow> fd_depth ex_coarse_data = fd_depth ex_fine_data"
    by (simp add: ex_coarse_data_def ex_fine_data_def)
  have depth: "fd_depth ex_fine_data = 1" "fd_depth ex_coarse_data = 1"
    by (simp_all add: ex_fine_data_def ex_coarse_data_def)
  have step: "refine_depth_step True no_fortran 2 [2, 2] ex_coarse_data 0
          (fine_box_of 2 0 ex_face_box) cb ex_fine_data 0 = Inr (setView ex_fine_data 0 0 fa')" for cb
    using k by (simp add: refine_depth_step_def getView_def depth bind_err_def)
  have box: "refine_box_step True True no_fortran 2 [2, 2] ex_coarse_data 0 ex_fine_data ex_face_box
      = Inr (setView ex_fine_data 0 0 fa')"
    by (simp add: refine_box_step_def dim_assert_def Box_coarsen_def bind_err_def depth step)
       (simp add: Box_getDim_def ex_face_box_def)
  have a0: "refine_axis_step True True no_fortran 2 [2, 2] ex_coarse_data [[ex_face_box], []]
       ex_fine_data 0 = Inr (setView ex_fine_data 0 0 fa')"
    by (simp add: refine_axis_step_def box bind_err_def)
  have a1: "refine_axis_step True True no_fortran 2 [2, 2] ex_coarse_data [[ex_face_box], []]
       s 1 = Inr s" for s
    by (simp add: refine_axis_step_def)
  have "for_each (refine_axis_step True True no_fortran 2 [2, 2] ex_coarse_data
            [[ex_face_box], []]) [0 ..< 2] ex_fine_data = Inr (setView ex_fine_data 0 0 fa')"
    using a0 a1 by (simp add: upt_0_2 bind_err_def)
  then show ?thesis
    using refine_contract_ok [OF gc gf ex_overlap_def d, of True no_fortran "[2, 2]"]
    by (simp add: bind_err_def ex_fine_def ex_coarse_def objdim_equality3_def)
qed



section \<open>Dimension checks\<close>




section \<open>More than three dimensions\<close>

lemma ex4_get: "getPatchData debug ex4_patch 0 = Inr (Some (FaceData ex4_data))"
  by (simp add: getPatchData_def ex4_patch_def)

lemma ex4_dims: "objdim_equality3 (patch_dim ex4_patch) (patch_dim ex4_patch) (length [2, 2, 2, 2 :: int])"
  by (simp add: objdim_equality3_def ex4_patch_def)

text \<open>
  C7, as the claim states it, fails: on a patch of dimension 4 with an overlap whose
  box containers are all empty, \<open>refine\<close> returns normally and reports no
  \<open>UnsupportedDimension\<close>, since the error sits in the body of the innermost loop.
\<close>

theorem C7_empty_overlap_counterexample:
  "3 < patch_dim ex4_patch
   \<and> refine True True no_fortran ex4_patch ex4_patch 0 0 (FaceOverlap [[], [], [], []])
        [2, 2, 2, 2] = Inr ex4_patch
   \<and> refine True True no_fortran ex4_patch ex4_patch 0 0 (FaceOverlap [[], [], [], []])
        [2, 2, 2, 2] \<noteq> Inl UnsupportedDimension"
proof -
  have "refine True True no_fortran ex4_patch ex4_patch 0 0 (FaceOverlap [[], [], [], []])
        [2, 2, 2, 2] = Inr ex4_patch"
    by (rule refine_high_dim_empty [OF ex4_get ex4_get refl refl ex4_dims])
       (simp_all add: ex4_patch_def)
  then show ?thesis by (simp add: ex4_patch_def)
qed

text \<open>
  C7, amended: on patches of dimension greater than 3, \<open>refine\<close> never computes anything:
  if it returns, the fine patch is unchanged. With arguments that pass the checks
  before the loops, it fails with \<open>UnsupportedDimension\<close> when the overlap has a box in
  some container and the data has a positive depth, and it returns the fine patch as it
  was when every container of the overlap is empty.
\<close>

theorem C7_unsupported_dimension:
  assumes "3 < patch_dim fine"
  shows "(refine debug have_raja ff fine coarse dst_component src_component fine_overlap ratio
            = Inr fine' \<longrightarrow> fine' = fine)
     \<and> (getPatchData debug coarse src_component = Inr (Some (FaceData cdata))
          \<and> getPatchData debug fine dst_component = Inr (Some (FaceData fdata))
          \<and> fine_overlap = FaceOverlap boxes
          \<and> fd_depth cdata = fd_depth fdata
          \<and> objdim_equality3 (patch_dim fine) (patch_dim coarse) (length ratio)
          \<and> length boxes = patch_dim fine \<longrightarrow>
        ((\<forall>bs \<in> set boxes. \<forall>b \<in> set bs. Box_getDim b = patch_dim fine)
          \<and> \<not> list_ex (\<lambda>r. r = 0) ratio
          \<and> (\<exists>bs \<in> set boxes. bs \<noteq> []) \<and> 0 < fd_depth fdata \<longrightarrow>
         refine debug have_raja ff fine coarse dst_component src_component fine_overlap ratio
           = Inl UnsupportedDimension)
        \<and> ((\<forall>bs \<in> set boxes. bs = []) \<longrightarrow>
           refine debug have_raja ff fine coarse dst_component src_component fine_overlap ratio
             = Inr fine))"
proof (intro conjI impI)
  assume "refine debug have_raja ff fine coarse dst_component src_component fine_overlap ratio
            = Inr fine'"
  from refine_high_dim_unchanged [OF assms this] show "fine' = fine" .
next
  assume c: "getPatchData debug coarse src_component = Inr (Some (FaceData cdata))
          \<and> getPatchData debug fine dst_component = Inr (Some (FaceData fdata))
          \<and> fine_overlap = FaceOverlap boxes
          \<and> fd_depth cdata = fd_depth fdata
          \<and> objdim_equality3 (patch_dim fine) (patch_dim coarse) (length ratio)
          \<and> length boxes = patch_dim fine"
    and w: "(\<forall>bs \<in> set boxes. \<forall>b \<in> set bs. Box_getDim b = patch_dim fine)
          \<and> \<not> list_ex (\<lambda>r. r = 0) ratio
          \<and> (\<exists>bs \<in> set boxes. bs \<noteq> []) \<and> 0 < fd_depth fdata"
  show "refine debug have_raja ff fine coarse dst_component src_component fine_overlap ratio
           = Inl UnsupportedDimension"
    by (rule refine_high_dim_fails [OF assms, of debug coarse src_component cdata dst_component
          fdata fine_overlap boxes ratio]) (use c w in simp_all)
next
  assume c: "getPatchData debug coarse src_component = Inr (Some (FaceData cdata))
          \<and> getPatchData debug fine dst_component = Inr (Some (FaceData fdata))
          \<and> fine_overlap = FaceOverlap boxes
          \<and> fd_depth cdata = fd_depth fdata
          \<and> objdim_equality3 (patch_dim fine) (patch_dim coarse) (length ratio)
          \<and> length boxes = patch_dim fine"
    and e: "\<forall>bs \<in> set boxes. bs = []"
  show "refine debug have_raja ff fine coarse dst_component src_component fine_overlap ratio
             = Inr fine"
    by (rule refine_high_dim_empty [of debug coarse src_component cdata fine dst_component
          fdata fine_overlap boxes ratio]) (use c e in simp_all)
qed

theorem C7_unsupported_dimension_witness:
  "3 < patch_dim ex4_patch
   \<and> refine True True no_fortran ex4_patch ex4_patch 0 0 (FaceOverlap [[ex4_box], [], [], []])
        [2, 2, 2, 2] = Inl UnsupportedDimension
   \<and> refine True True no_fortran ex4_patch ex4_patch 0 0 (FaceOverlap [[], [], [], []])
        [2, 2, 2, 2] = Inr ex4_patch"
proof -
  have d: "3 < patch_dim ex4_patch" by (simp add: ex4_patch_def)
  have c: "getPatchData True ex4_patch 0 = Inr (Some (FaceData ex4_data))
          \<and> getPatchData True ex4_patch 0 = Inr (Some (FaceData ex4_data))
          \<and> FaceOverlap bs = FaceOverlap bs
          \<and> fd_depth ex4_data = fd_depth ex4_data
          \<and> objdim_equality3 (patch_dim ex4_patch) (patch_dim ex4_patch)
               (length [2, 2, 2, 2 :: int])
          \<and> length bs = patch_dim ex4_patch" if "length bs = 4" for bs
    using that ex4_dims by (simp add: ex4_get) (simp add: ex4_patch_def)
  have w: "(\<forall>bs \<in> set [[ex4_box], [], [], []]. \<forall>b \<in> set bs. Box_getDim b = patch_dim ex4_patch)
          \<and> \<not> list_ex (\<lambda>r. r = 0) [2, 2, 2, 2 :: int]
          \<and> (\<exists>bs \<in> set [[ex4_box], [], [], []]. bs \<noteq> []) \<and> 0 < fd_depth ex4_data"
    by (simp add: ex4_box_def Box_getDim_def ex4_patch_def ex4_data_def)
  have e: "\<forall>bs \<in> set [[], [], [], []]. bs = ([] :: Box list)" by simp
  note T1 = C7_unsupported_dimension [OF d, where debug = True and coarse = ex4_patch
      and src_component = 0 and dst_component = 0 and cdata = ex4_data and fdata = ex4_data
      and fine_overlap = "FaceOverlap [[ex4_box], [], [], []]"
      and boxes = "[[ex4_box], [], [], []]" and ratio = "[2, 2, 2, 2]"
      and have_raja = True and ff = no_fortran,
      THEN conjunct2, rule_format, OF c, THEN conjunct1, rule_format, OF _ w]
  note T2 = C7_unsupported_dimension [OF d, where debug = True and coarse = ex4_patch
      and src_component = 0 and dst_component = 0 and cdata = ex4_data and fdata = ex4_data
      and fine_overlap = "FaceOverlap [[], [], [], []]"
      and boxes = "[[], [], [], []]" and ratio = "[2, 2, 2, 2]"
      and have_raja = True and ff = no_fortran,
      THEN conjunct2, rule_format, OF c, THEN conjunct2, THEN mp, OF _ e]
  have "refine True True no_fortran ex4_patch ex4_patch 0 0
          (FaceOverlap [[ex4_box], [], [], []]) [2, 2, 2, 2] = Inl UnsupportedDimension"
    by (rule T1) simp
  moreover have "refine True True no_fortran ex4_patch ex4_patch 0 0
          (FaceOverlap [[], [], [], []]) [2, 2, 2, 2] = Inr ex4_patch"
    by (rule T2) simp
  ultimately show ?thesis using d by simp
qed

end
